theory Spec2Isabelle
  imports Main
begin

section \<open>JavaScript strings\<close>

text \<open>
  A JavaScript string is modelled as a list of code units. The 8-bit type \<^typ>\<open>char\<close>
  covers the code units U+0000 to U+00FF (ASCII and Latin-1); \<open>String.prototype.toLowerCase\<close>,
  \<open>trim\<close> and the regular-expression class \<open>\s\<close> are given on that range, where
  lower-casing is a map on single code units and the white-space code units are
  TAB, LF, VT, FF, CR, SPACE and NBSP.
\<close>

definition isWhiteSpace :: "char \<Rightarrow> bool" where
  "isWhiteSpace c = (of_char c \<in> {9, 10, 11, 12, 13, 32, 160 :: nat})"

definition toLowerChar :: "char \<Rightarrow> char" where
  "toLowerChar c =
     (let n = of_char c :: nat
      in if (65 \<le> n \<and> n \<le> 90) \<or> (192 \<le> n \<and> n \<le> 222 \<and> n \<noteq> 215)
         then char_of (n + 32) else c)"

definition toLowerCase :: "string \<Rightarrow> string" where
  "toLowerCase s = map toLowerChar s"

definition trim :: "string \<Rightarrow> string" where
  "trim s = rev (dropWhile isWhiteSpace (rev (dropWhile isWhiteSpace s)))"

subsection \<open>utils/sanitizeFileName.js and utils/sanitizeBucketName.js\<close>

text \<open>
  Each \<open>.replace\<close> of the source is one pass over the string:
  \<^item> \<open>replaceSpaceRuns\<close> is \<open>.replace(/\s+/g, "-")\<close> (the flag says that the previous
    code unit belonged to the run being replaced);
  \<^item> \<open>removeInvalid\<close> is \<open>.replace(/[^a-z0-9!._*'()\-]/g, "")\<close>;
  \<^item> \<open>collapseHyphens\<close> is \<open>.replace(/-+/g, "-")\<close>;
  \<^item> \<open>stripLeadingHyphens\<close> is \<open>.replace(/^-+/, "")\<close>;
  \<^item> \<open>stripTrailingHyphens\<close> is \<open>.replace(/-+$/, "")\<close>;
  \<^item> \<open>removeHyphensBeforeDot\<close> is \<open>.replace(/-+\./g, ".")\<close> (the number counts the
    hyphens read and not yet written).
\<close>

fun replaceSpaceRuns :: "bool \<Rightarrow> string \<Rightarrow> string" where
  "replaceSpaceRuns inRun [] = []"
| "replaceSpaceRuns inRun (c # cs) =
     (if isWhiteSpace c
      then (if inRun then replaceSpaceRuns True cs else CHR ''-'' # replaceSpaceRuns True cs)
      else c # replaceSpaceRuns False cs)"

definition allowedChar :: "char \<Rightarrow> bool" where
  "allowedChar c =
     ((let n = of_char c :: nat in (97 \<le> n \<and> n \<le> 122) \<or> (48 \<le> n \<and> n \<le> 57))
      \<or> c \<in> set ''!._*'' \<or> c = CHR 0x27 \<or> c \<in> set ''()-'')"

definition removeInvalid :: "string \<Rightarrow> string" where
  "removeInvalid s = filter allowedChar s"

fun collapseHyphens :: "bool \<Rightarrow> string \<Rightarrow> string" where
  "collapseHyphens inRun [] = []"
| "collapseHyphens inRun (c # cs) =
     (if c = CHR ''-''
      then (if inRun then collapseHyphens True cs else c # collapseHyphens True cs)
      else c # collapseHyphens False cs)"

definition stripLeadingHyphens :: "string \<Rightarrow> string" where
  "stripLeadingHyphens s = dropWhile (\<lambda>c. c = CHR ''-'') s"

definition stripTrailingHyphens :: "string \<Rightarrow> string" where
  "stripTrailingHyphens s = rev (dropWhile (\<lambda>c. c = CHR ''-'') (rev s))"

fun removeHyphensBeforeDot :: "nat \<Rightarrow> string \<Rightarrow> string" where
  "removeHyphensBeforeDot n [] = replicate n (CHR ''-'')"
| "removeHyphensBeforeDot n (c # cs) =
     (if c = CHR ''-'' then removeHyphensBeforeDot (Suc n) cs
      else if c = CHR ''.'' then c # removeHyphensBeforeDot 0 cs
      else replicate n (CHR ''-'') @ c # removeHyphensBeforeDot 0 cs)"

definition sanitizeFileName :: "string \<Rightarrow> string" where
  "sanitizeFileName fileName =
     removeHyphensBeforeDot 0
       (stripTrailingHyphens
         (stripLeadingHyphens
           (collapseHyphens False
             (removeInvalid
               (replaceSpaceRuns False
                 (toLowerCase fileName))))))"

definition sanitizeBucketName :: "string \<Rightarrow> string" where
  "sanitizeBucketName bucketName = stripTrailingHyphens (toLowerCase (trim bucketName))"

text \<open>
  What a sanitised file name looks like: only allowed code units, no two hyphens in a
  row, no hyphen before a dot, no hyphen at either end.
\<close>

definition noHyphenPair :: "char \<Rightarrow> char \<Rightarrow> bool" where
  "noHyphenPair a b = (\<not> (a = CHR ''-'' \<and> b = CHR ''-''))"

definition noHyphenDot :: "char \<Rightarrow> char \<Rightarrow> bool" where
  "noHyphenDot a b = (\<not> (a = CHR ''-'' \<and> b = CHR ''.''))"

definition cleanName :: "string \<Rightarrow> bool" where
  "cleanName s =
     (list_all allowedChar s \<and> successively noHyphenPair s \<and> successively noHyphenDot s
      \<and> (s \<noteq> [] \<longrightarrow> hd s \<noteq> CHR ''-'' \<and> last s \<noteq> CHR ''-''))"

section \<open>JavaScript values, errors and string helpers\<close>

text \<open>
  The primitive values that reach the service. A \<open>JNum\<close> is an integral Number in the
  range where JavaScript arithmetic is exact and \<open>String\<close> writes plain decimal digits;
  \<open>JNaN\<close> is the Number NaN. Objects are maps from property names to values, a missing
  property reading as \<open>undefined\<close>.
\<close>

datatype js_value = JUndefined | JNull | JBool bool | JNum int | JNaN | JStr string

type_synonym js_object = "string \<rightharpoonup> js_value"

definition getProp :: "js_object \<Rightarrow> string \<Rightarrow> js_value" where
  "getProp obj k = (case obj k of None \<Rightarrow> JUndefined | Some v \<Rightarrow> v)"

fun truthy :: "js_value \<Rightarrow> bool" where
  "truthy JUndefined = False"
| "truthy JNull = False"
| "truthy (JBool b) = b"
| "truthy (JNum n) = (n \<noteq> 0)"
| "truthy JNaN = False"
| "truthy (JStr s) = (s \<noteq> [])"

text \<open>\<open>a || b\<close>\<close>

definition js_or :: "js_value \<Rightarrow> js_value \<Rightarrow> js_value" where
  "js_or a b = (if truthy a then a else b)"

text \<open>A string that may be \<open>undefined\<close> or \<open>null\<close>: its truthiness and its place in a template literal.\<close>

definition present :: "string option \<Rightarrow> bool" where
  "present s = (case s of None \<Rightarrow> False | Some v \<Rightarrow> v \<noteq> [])"

definition tmpl :: "string option \<Rightarrow> string" where
  "tmpl s = (case s of None \<Rightarrow> ''undefined'' | Some v \<Rightarrow> v)"

fun decimal :: "nat \<Rightarrow> string" where
  "decimal n =
     (if n < 10 then [''0123456789'' ! n]
      else decimal (n div 10) @ [''0123456789'' ! (n mod 10)])"

declare decimal.simps [simp del]

text \<open>\<open>String(v)\<close>\<close>

fun String_js :: "js_value \<Rightarrow> string" where
  "String_js JUndefined = ''undefined''"
| "String_js JNull = ''null''"
| "String_js (JBool b) = (if b then ''true'' else ''false'')"
| "String_js (JNum n) = (if n < 0 then CHR ''-'' # decimal (nat (- n)) else decimal (nat n))"
| "String_js JNaN = ''NaN''"
| "String_js (JStr s) = s"

text \<open>
  A thrown value: the \<open>name\<close>, \<open>code\<close> and \<open>message\<close> properties the source reads.
  A function that may throw returns \<open>js_error + 'a\<close>.
\<close>

record js_error =
  e_name :: string
  e_code :: "string option"
  e_message :: string

definition Error :: "string \<Rightarrow> js_error" where
  "Error msg = \<lparr>e_name = ''Error'', e_code = None, e_message = msg\<rparr>"

definition TypeError :: "string \<Rightarrow> js_error" where
  "TypeError msg = \<lparr>e_name = ''TypeError'', e_code = None, e_message = msg\<rparr>"

text \<open>
  Built-ins of the runtime that are taken as given: the \<open>URL\<close> constructor (it throws
  on a string that is no URL), the conversion of a String to a Number, and the two
  \<open>Date\<close> operations the adapters use, a date being represented by its time value:
  \<open>setMinutesPlus d v\<close> is the date after \<open>d.setMinutes(d.getMinutes() + v)\<close>.
\<close>

record url =
  hostname :: string
  pathname :: string

record js_runtime =
  newURL :: "string \<Rightarrow> js_error + url"
  stringToNumber :: "string \<Rightarrow> js_value"
  setMinutesPlus :: "js_value \<Rightarrow> js_value \<Rightarrow> js_value"
  toISOString :: "js_value \<Rightarrow> js_error + string"

fun toNumber :: "js_runtime \<Rightarrow> js_value \<Rightarrow> js_value" where
  "toNumber rt JUndefined = JNaN"
| "toNumber rt JNull = JNum 0"
| "toNumber rt (JBool b) = JNum (if b then 1 else 0)"
| "toNumber rt (JNum n) = JNum n"
| "toNumber rt JNaN = JNaN"
| "toNumber rt (JStr s) = stringToNumber rt s"

text \<open>\<open>a * b\<close>, and \<open>a + b\<close> on two Numbers\<close>

definition js_times :: "js_runtime \<Rightarrow> js_value \<Rightarrow> js_value \<Rightarrow> js_value" where
  "js_times rt a b =
     (case (toNumber rt a, toNumber rt b) of
        (JNum x, JNum y) \<Rightarrow> JNum (x * y)
      | _ \<Rightarrow> JNaN)"

definition js_plus :: "js_value \<Rightarrow> js_value \<Rightarrow> js_value" where
  "js_plus a b =
     (case (a, b) of
        (JNum x, JNum y) \<Rightarrow> JNum (x + y)
      | _ \<Rightarrow> JNaN)"

text \<open>\<open>s.includes(sub)\<close>, \<open>s.split(c)\<close> on a one-character separator, \<open>parts.join(sep)\<close>\<close>

fun js_includes :: "string \<Rightarrow> string \<Rightarrow> bool" where
  "js_includes [] sub = (sub = [])"
| "js_includes (c # cs) sub = (take (length sub) (c # cs) = sub \<or> js_includes cs sub)"

fun js_split :: "char \<Rightarrow> string \<Rightarrow> string list" where
  "js_split sep [] = [[]]"
| "js_split sep (c # cs) =
     (if c = sep then [] # js_split sep cs
      else (case js_split sep cs of
              [] \<Rightarrow> [[c]]
            | p # ps \<Rightarrow> (c # p) # ps))"

fun js_join :: "string \<Rightarrow> string list \<Rightarrow> string" where
  "js_join sep [] = []"
| "js_join sep [p] = p"
| "js_join sep (p # q # ps) = p @ sep @ js_join sep (q # ps)"

text \<open>
  \<open>s.match(/Key([^;]+)/)\<close>, first capture group: the first place where \<open>Key\<close> is followed
  by at least one code unit other than \<open>;\<close>, and the longest run of such code units there.
\<close>

fun matchField :: "string \<Rightarrow> string \<Rightarrow> string option" where
  "matchField k [] = None"
| "matchField k (c # cs) =
     (let v = takeWhile (\<lambda>x. x \<noteq> CHR '';'') (drop (length k) (c # cs))
      in if take (length k) (c # cs) = k \<and> v \<noteq> [] then Some v else matchField k cs)"

section \<open>config/platform-config.js\<close>

text \<open>
  The table of platforms. \<open>process.env\<close> is the parameter \<open>penv\<close>; a variable that is
  not set reads as \<open>undefined\<close> (\<open>None\<close>). A property that an environment does not list
  is \<open>None\<close> as well. The properties of an environment carry the prefix \<open>cfg_\<close>.
\<close>

record env_config =
  cfg_apiKey :: "string option"
  cfg_provider :: "string option"
  cfg_connectionString :: "string option"
  cfg_accountName :: "string option"
  cfg_accountKey :: "string option"
  cfg_accessKeyId :: "string option"
  cfg_secretAccessKey :: "string option"
  cfg_region :: "string option"
  cfg_bucketName :: "string option"

record platform_config = env_config +
  platformName :: string

record platform =
  name :: string
  environments :: "(string \<times> env_config) list"

type_synonym process_env = "string \<Rightarrow> string option"

definition azureEnvironment :: "process_env \<Rightarrow> string \<Rightarrow> env_config" where
  "azureEnvironment penv pre =
     \<lparr>cfg_apiKey = penv (pre @ ''_API_KEY''),
      cfg_provider = Some ''azure'',
      cfg_connectionString = penv (pre @ ''_CONNECTION_STRING''),
      cfg_accountName = penv (pre @ ''_ACCOUNT_NAME''),
      cfg_accountKey = penv (pre @ ''_ACCOUNT_KEY''),
      cfg_accessKeyId = None, cfg_secretAccessKey = None, cfg_region = None, cfg_bucketName = None\<rparr>"

text \<open>\<open>process.env.X || 'ap-south-1'\<close>\<close>

definition orDefault :: "string option \<Rightarrow> string \<Rightarrow> string" where
  "orDefault v d = (if present v then tmpl v else d)"

definition s3Environment :: "process_env \<Rightarrow> string \<Rightarrow> string \<Rightarrow> string option \<Rightarrow> env_config" where
  "s3Environment penv pre reg bucket =
     \<lparr>cfg_apiKey = penv (pre @ ''_API_KEY''),
      cfg_provider = Some ''s3'',
      cfg_connectionString = None, cfg_accountName = None, cfg_accountKey = None,
      cfg_accessKeyId = penv (pre @ ''_AWS_ACCESS_KEY''),
      cfg_secretAccessKey = penv (pre @ ''_AWS_SECRET_KEY''),
      cfg_region = Some reg,
      cfg_bucketName = bucket\<rparr>"

definition platforms :: "process_env \<Rightarrow> (string \<times> platform) list" where
  "platforms penv =
     [(''onedigital'',
        \<lparr>name = ''OneDigital'',
         environments =
           [(''uat'', azureEnvironment penv ''ONEDIGITAL_UAT''),
            (''preprod'', azureEnvironment penv ''ONEDIGITAL_PREPROD''),
            (''prod'', s3Environment penv ''ONEDIGITAL_PROD'' ''ap-south-1''
                         (penv ''ONEDIGITAL_PROD_BUCKET_NAME''))]\<rparr>),
      (''invictus'',
        \<lparr>name = ''Invictus'',
         environments =
           [(''uat'', s3Environment penv ''INVICTUS_UAT''
                        (orDefault (penv ''INVICTUS_UAT_AWS_REGION'') ''ap-south-1'') None),
            (''preprod'', s3Environment penv ''INVICTUS_PREPROD''
                        (orDefault (penv ''INVICTUS_PREPROD_AWS_REGION'') ''ap-south-1'') None),
            (''prod'', s3Environment penv ''INVICTUS_PROD''
                        (orDefault (penv ''INVICTUS_PROD_AWS_REGION'') ''ap-south-1'') None)]\<rparr>),
      (''brokerage'',
        \<lparr>name = ''Brokerage'',
         environments =
           [(''uat'', azureEnvironment penv ''BROKERAGE_UAT''),
            (''preprod'', azureEnvironment penv ''BROKERAGE_PREPROD''),
            (''prod'', azureEnvironment penv ''BROKERAGE_PROD'')]\<rparr>)]"

text \<open>
  A property read on an object literal also finds the properties inherited from
  \<open>Object.prototype\<close>. None of them has an \<open>environments\<close> property, so such a platform
  id ends in a \<open>TypeError\<close>; such an environment name gives a truthy value with no own
  property, and the spread leaves \<open>platformName\<close> alone in the result.
\<close>

definition objectPrototypeKeys :: "string list" where
  "objectPrototypeKeys =
     [''constructor'', ''__defineGetter__'', ''__defineSetter__'', ''hasOwnProperty'',
      ''__lookupGetter__'', ''__lookupSetter__'', ''isPrototypeOf'', ''propertyIsEnumerable'',
      ''toString'', ''valueOf'', ''__proto__'', ''toLocaleString'']"

definition emptyEnvironment :: env_config where
  "emptyEnvironment =
     \<lparr>cfg_apiKey = None, cfg_provider = None, cfg_connectionString = None, cfg_accountName = None,
      cfg_accountKey = None, cfg_accessKeyId = None, cfg_secretAccessKey = None, cfg_region = None,
      cfg_bucketName = None\<rparr>"

definition withPlatformName :: "string \<Rightarrow> env_config \<Rightarrow> platform_config" where
  "withPlatformName n envConfig = env_config.extend envConfig (platform_config.fields n)"

definition getPlatformConfig ::
  "(string \<times> platform) list \<Rightarrow> string \<Rightarrow> string \<Rightarrow> js_error + platform_config" where
  "getPlatformConfig table platformId environment =
     (case map_of table platformId of
        None \<Rightarrow>
          if platformId \<in> set objectPrototypeKeys
          then Inl (TypeError (''Cannot read properties of undefined (reading '' @ [CHR 0x27]
                               @ environment @ [CHR 0x27] @ '')''))
          else Inl (Error (''Platform '' @ [CHR 0x27] @ platformId @ [CHR 0x27] @ '' not found''))
      | Some platform \<Rightarrow>
          (case map_of (environments platform) environment of
             None \<Rightarrow>
               if environment \<in> set objectPrototypeKeys
               then Inr (withPlatformName (name platform) emptyEnvironment)
               else Inl (Error (''Environment '' @ [CHR 0x27] @ environment @ [CHR 0x27]
                                @ '' not found for platform '' @ [CHR 0x27] @ platformId
                                @ [CHR 0x27]))
           | Some envConfig \<Rightarrow> Inr (withPlatformName (name platform) envConfig)))"

section \<open>The storage SDKs\<close>

text \<open>
  The AWS and Azure SDKs are outside the repository. Every request an adapter makes is
  a value of \<open>sdk_call\<close>; the SDK answers it with an error (the promise rejects, the
  call throws) or with a reply object, of which the adapters read the properties below.
  The answer may depend on every request made before, which stands for the state of the
  backend; the list of requests made so far is threaded through the adapters and is the
  record of what an operation did to the store.

  A container, bucket or blob name is \<open>None\<close> where the source passes \<open>undefined\<close> or
  \<open>null\<close>. A file body is the list of its bytes.
\<close>

type_synonym buffer = string

record grant =
  grantee_URI :: "string option"
  permission :: "string option"

datatype sdk_call =
    HeadBucketCommand "string option"
  | PutObjectCommand "string option" string buffer "string \<rightharpoonup> string" "string option"
      \<comment> \<open>Bucket, Key, Body, Metadata, ACL\<close>
  | DeleteObjectCommand "string option" string
  | HeadObjectCommand "string option" string
  | GetObjectAclCommand "string option" string
  | GetBucketAclCommand "string option"
  | GetSignedUrl "string option" string js_value
      \<comment> \<open>\<open>getSignedUrl\<close> of a \<open>GetObjectCommand\<close>: Bucket, Key, expiresIn\<close>
  | ContainerExists "string option"
  | ContainerCreate "string option"
  | ContainerSetAccessPolicy "string option" string
  | ContainerGetProperties "string option"
  | BlobUpload "string option" string buffer nat js_object
      \<comment> \<open>container, blob, data, length, metadata\<close>
  | BlobDelete "string option" "string option"
  | BlobExists "string option" string
  | GenerateBlobSAS "string option" string js_value js_value
      \<comment> \<open>\<open>generateBlobSASQueryParameters\<close>: container, blob, startsOn, expiresOn\<close>

record sdk_reply =
  Grants :: "grant list option"
  blobPublicAccess :: "string option"
  asBoolean :: bool
  asString :: string

type_synonym trace = "sdk_call list"

record sdk =
  respond :: "trace \<Rightarrow> sdk_call \<Rightarrow> js_error + sdk_reply"
  blobUrl :: "string option \<Rightarrow> string \<Rightarrow> string"
  newS3Client :: "platform_config \<Rightarrow> js_error option"
  newBlobServiceClient :: "platform_config \<Rightarrow> js_error option"

definition perform :: "sdk \<Rightarrow> sdk_call \<Rightarrow> trace \<Rightarrow> (js_error + sdk_reply) \<times> trace" where
  "perform k c t = (respond k t c, t @ [c])"

text \<open>The requests that change the store.\<close>

fun isWrite :: "sdk_call \<Rightarrow> bool" where
  "isWrite (PutObjectCommand _ _ _ _ _) = True"
| "isWrite (DeleteObjectCommand _ _) = True"
| "isWrite (ContainerCreate _) = True"
| "isWrite (ContainerSetAccessPolicy _ _) = True"
| "isWrite (BlobUpload _ _ _ _ _) = True"
| "isWrite (BlobDelete _ _) = True"
| "isWrite _ = False"

fun isSigning :: "sdk_call \<Rightarrow> bool" where
  "isSigning (GetSignedUrl _ _ _) = True"
| "isSigning (GenerateBlobSAS _ _ _ _) = True"
| "isSigning _ = False"

text \<open>
  The metadata a request attaches to the object it stores (the strings of an S3
  request as String values).
\<close>

fun sentMetadata :: "sdk_call \<Rightarrow> js_object" where
  "sentMetadata (PutObjectCommand _ _ _ md _) = map_option JStr \<circ> md"
| "sentMetadata (BlobUpload _ _ _ _ md) = md"
| "sentMetadata _ = Map.empty"

text \<open>The requests an operation made: what its final trace adds to the trace it started from.\<close>

definition issued :: "trace \<Rightarrow> trace \<Rightarrow> trace" where
  "issued t t' = drop (length t) t'"

section \<open>providers/aws-s3-provider.js\<close>

text \<open>
  Every method that awaits the SDK takes the trace of the requests made so far and
  returns it extended. \<open>this.region\<close> is the parameter \<open>region\<close>.
\<close>

record s3_parsed =
  p_bucketName :: "string option"
  p_key :: string
  p_region :: string
  p_baseUrl :: string
  p_fullPath :: string

record download_options =
  opt_expiryMinutes :: js_value

record download_result =
  r_downloadUrl :: string
  r_isPublic :: bool
  r_requiresSAS :: bool
  r_expiresIn :: js_value
  r_expiresAt :: "string option"
  r_fileName :: string

text \<open>\<open>parts[0]\<close>, which is \<open>undefined\<close> on an empty array; \<open>parts.pop()\<close> of a split, which is never empty\<close>

definition firstPart :: "string list \<Rightarrow> string option" where
  "firstPart parts = (case parts of [] \<Rightarrow> None | p # _ \<Rightarrow> Some p)"

definition lastPart :: "string list \<Rightarrow> string" where
  "lastPart parts = (case rev parts of [] \<Rightarrow> [] | p # _ \<Rightarrow> p)"

definition s3_parseUrl :: "js_runtime \<Rightarrow> string \<Rightarrow> string \<Rightarrow> js_error + s3_parsed" where
  "s3_parseUrl rt region u =
     (case newURL rt u of
        Inl e \<Rightarrow> Inl (Error (''Failed to parse S3 URL: '' @ e_message e))
      | Inr urlObj \<Rightarrow>
          (let (bucket, key) =
                 (if js_includes (hostname urlObj) ''.s3.''
                  then (firstPart (js_split (CHR ''.'') (hostname urlObj)),
                        drop 1 (pathname urlObj))
                  else (let pathParts = filter (\<lambda>part. length part > 0)
                                               (js_split (CHR ''/'') (pathname urlObj))
                        in (firstPart pathParts, js_join ''/'' (drop 1 pathParts))))
           in Inr \<lparr>p_bucketName = bucket,
                    p_key = key,
                    p_region = region,
                    p_baseUrl = ''https://'' @ tmpl bucket @ ''.s3.'' @ region @ ''.amazonaws.com'',
                    p_fullPath = ''/'' @ key\<rparr>))"

text \<open>The permanent address \<open>uploadFile\<close> returns, a template literal of the source.\<close>

definition s3_objectUrl :: "string option \<Rightarrow> string \<Rightarrow> string \<Rightarrow> string" where
  "s3_objectUrl bucket region key =
     ''https://'' @ tmpl bucket @ ''.s3.'' @ region @ ''.amazonaws.com/'' @ key"

text \<open>
  \<open>ensureBucketExists(bucketName, expectedAccess)\<close>. The comparison of the bucket's
  access with \<open>expectedAccess\<close> is commented out in the source, and \<open>uploadFile\<close> passes
  no second argument.
\<close>

definition s3_ensureBucketExists ::
  "sdk \<Rightarrow> trace \<Rightarrow> string option \<Rightarrow> string option \<Rightarrow> (js_error + unit) \<times> trace" where
  "s3_ensureBucketExists k t bucket expectedAccess =
     (case perform k (HeadBucketCommand bucket) t of
        (Inl e, t1) \<Rightarrow>
          (Inl (Error (''Bucket '' @ tmpl bucket
                       @ '' does not exist.Please Create the bucket first.'')), t1)
      | (Inr _, t1) \<Rightarrow> (Inr (), t1))"

definition s3_uploadFile ::
  "process_env \<Rightarrow> sdk \<Rightarrow> string \<Rightarrow> string \<Rightarrow> trace \<Rightarrow> string \<Rightarrow> buffer \<Rightarrow> string option \<Rightarrow> string
    \<Rightarrow> js_object \<Rightarrow> string \<Rightarrow> (js_error + string) \<times> trace" where
  "s3_uploadFile penv k region nowIso t bucket fileData prefix fileName metadata access =
     (let wrap = (\<lambda>e. Error (''S3 upload failed: '' @ e_message e))
      in case getPlatformConfig (platforms penv) (String_js (getProp metadata ''platformId''))
                (String_js (getProp metadata ''environment'')) of
           Inl e \<Rightarrow> (Inl (wrap e), t)
         | Inr platformConfig \<Rightarrow>
             (let bucketNameValue = cfg_bucketName platformConfig;
                  prefixValue = (if present prefix then bucket @ ''/'' @ tmpl prefix else bucket)
              in case s3_ensureBucketExists k t bucketNameValue None of
                   (Inl e, t1) \<Rightarrow> (Inl (wrap e), t1)
                 | (Inr _, t1) \<Rightarrow>
                     (let awsMetadata = (map_option String_js \<circ> metadata)
                                          (''uploadedAt'' \<mapsto> nowIso, ''provider'' \<mapsto> ''s3'',
                                           ''access'' \<mapsto> access);
                          key = (if prefixValue \<noteq> [] then prefixValue @ ''/'' @ fileName
                                 else fileName)
                      in case perform k (PutObjectCommand bucketNameValue key fileData awsMetadata
                                           (if access = ''public'' then Some ''public-read''
                                            else None)) t1 of
                           (Inl e, t2) \<Rightarrow> (Inl (wrap e), t2)
                         | (Inr _, t2) \<Rightarrow>
                             (Inr (s3_objectUrl bucketNameValue region key), t2))))"

definition isPublicGrant :: "grant \<Rightarrow> bool" where
  "isPublicGrant g =
     (grantee_URI g = Some ''http://acs.amazonaws.com/groups/global/AllUsers''
      \<and> (permission g = Some ''READ'' \<or> permission g = Some ''FULL_CONTROL''))"

definition s3_isObjectPublic ::
  "sdk \<Rightarrow> trace \<Rightarrow> string option \<Rightarrow> string \<Rightarrow> bool \<times> trace" where
  "s3_isObjectPublic k t bucket key =
     (case perform k (GetObjectAclCommand bucket key) t of
        (Inl e, t1) \<Rightarrow> (False, t1)
      | (Inr response, t1) \<Rightarrow>
          (let publicGrants = (case Grants response of
                                 None \<Rightarrow> []
                               | Some gs \<Rightarrow> filter isPublicGrant gs)
           in (length publicGrants > 0, t1)))"

text \<open>\<open>isBucketPublic\<close> returns \<open>undefined\<close> (\<open>None\<close>) when the response has no \<open>Grants\<close>.\<close>

definition s3_isBucketPublic ::
  "sdk \<Rightarrow> trace \<Rightarrow> string option \<Rightarrow> bool option \<times> trace" where
  "s3_isBucketPublic k t bucket =
     (case perform k (GetBucketAclCommand bucket) t of
        (Inl e, t1) \<Rightarrow> (Some False, t1)
      | (Inr response, t1) \<Rightarrow> (map_option (list_ex isPublicGrant) (Grants response), t1))"

definition s3_fileExists ::
  "js_runtime \<Rightarrow> sdk \<Rightarrow> string \<Rightarrow> trace \<Rightarrow> string \<Rightarrow> (js_error + bool) \<times> trace" where
  "s3_fileExists rt k region t fileUrl =
     (let catch = (\<lambda>e t'. if e_name e = ''NotFound'' \<or> e_code e = Some ''NotFound''
                           then (Inr False, t') else (Inl e, t'))
      in case s3_parseUrl rt region fileUrl of
           Inl e \<Rightarrow> catch e t
         | Inr parsed \<Rightarrow>
             (case perform k (HeadObjectCommand (p_bucketName parsed) (p_key parsed)) t of
                (Inl e, t1) \<Rightarrow> catch e t1
              | (Inr _, t1) \<Rightarrow> (Inr True, t1)))"

text \<open>\<open>now\<close> is the reading of \<open>Date.now()\<close>.\<close>

definition s3_generateDownloadUrl ::
  "js_runtime \<Rightarrow> sdk \<Rightarrow> string \<Rightarrow> int \<Rightarrow> trace \<Rightarrow> string \<Rightarrow> download_options
    \<Rightarrow> (js_error + download_result) \<times> trace" where
  "s3_generateDownloadUrl rt k region now t permanentUrl options =
     (let wrap = (\<lambda>e. Error (''S3 download URL generation failed: '' @ e_message e))
      in case s3_parseUrl rt region permanentUrl of
           Inl e \<Rightarrow> (Inl (wrap e), t)
         | Inr parsed \<Rightarrow>
             (case s3_fileExists rt k region t permanentUrl of
                (Inl e, t1) \<Rightarrow> (Inl (wrap e), t1)
              | (Inr exists, t1) \<Rightarrow>
                  if \<not> exists then (Inl (wrap (Error ''File not found'')), t1)
                  else
                    (let (isPublic, t2) =
                           s3_isObjectPublic k t1 (p_bucketName parsed) (p_key parsed);
                         (isBucketPublic, t3) = s3_isBucketPublic k t2 (p_bucketName parsed)
                     in if isPublic
                        then (Inr \<lparr>r_downloadUrl = permanentUrl,
                                   r_isPublic = True,
                                   r_requiresSAS = False,
                                   r_expiresIn = JNull,
                                   r_expiresAt = None,
                                   r_fileName = lastPart (js_split (CHR ''/'') (p_key parsed))\<rparr>,
                              t3)
                        else
                          (let expiryMinutes = js_or (opt_expiryMinutes options) (JNum 60);
                               expiresIn = js_times rt expiryMinutes (JNum 60)
                           in case perform k (GetSignedUrl (p_bucketName parsed) (p_key parsed)
                                                 expiresIn) t3 of
                                (Inl e, t4) \<Rightarrow> (Inl (wrap e), t4)
                              | (Inr signed, t4) \<Rightarrow>
                                  (case toISOString rt
                                          (js_plus (JNum now)
                                             (js_times rt expiresIn (JNum 1000))) of
                                     Inl e \<Rightarrow> (Inl (wrap e), t4)
                                   | Inr expiresAt \<Rightarrow>
                                       (Inr \<lparr>r_downloadUrl = asString signed,
                                              r_isPublic = False,
                                              r_requiresSAS = True,
                                              r_expiresIn = expiresIn,
                                              r_expiresAt = Some expiresAt,
                                              r_fileName = lastPart (js_split (CHR ''/'')
                                                                       (p_key parsed))\<rparr>,
                                        t4))))))"

definition s3_deleteFile ::
  "js_runtime \<Rightarrow> sdk \<Rightarrow> string \<Rightarrow> trace \<Rightarrow> string \<Rightarrow> (js_error + bool) \<times> trace" where
  "s3_deleteFile rt k region t fileUrl =
     (let wrap = (\<lambda>e. Error (''S3 delete failed: '' @ e_message e))
      in case s3_parseUrl rt region fileUrl of
           Inl e \<Rightarrow> (Inl (wrap e), t)
         | Inr parsed \<Rightarrow>
             (case perform k (DeleteObjectCommand (p_bucketName parsed) (p_key parsed)) t of
                (Inl e, t1) \<Rightarrow> (Inl (wrap e), t1)
              | (Inr _, t1) \<Rightarrow> (Inr True, t1)))"

text \<open>
  \<open>deleteFileByBucketKey(bucketName, key, metadata)\<close>. The key is \<open>None\<close> when the caller
  passes \<open>null\<close> or nothing, and so is \<open>metadata\<close>, whose property read then throws.
\<close>

definition s3_deleteFileByBucketKey ::
  "process_env \<Rightarrow> sdk \<Rightarrow> trace \<Rightarrow> string \<Rightarrow> string option \<Rightarrow> js_object option
    \<Rightarrow> (js_error + bool) \<times> trace" where
  "s3_deleteFileByBucketKey penv k t bucket key metadata =
     (let wrap = (\<lambda>e. Error (''S3 delete by bucket key failed: '' @ e_message e))
      in case metadata of
           None \<Rightarrow>
             (Inl (wrap (TypeError (''Cannot read properties of undefined (reading ''
                                    @ [CHR 0x27] @ ''platformId'' @ [CHR 0x27] @ '')''))), t)
         | Some md \<Rightarrow>
             (case getPlatformConfig (platforms penv) (String_js (getProp md ''platformId''))
                     (String_js (getProp md ''environment'')) of
                Inl e \<Rightarrow> (Inl (wrap e), t)
              | Inr platformConfig \<Rightarrow>
                  (let bucketNameValue = cfg_bucketName platformConfig;
                       keyValue = (if present key then bucket @ ''/'' @ tmpl key else bucket)
                   in case perform k (DeleteObjectCommand bucketNameValue keyValue) t of
                        (Inl e, t1) \<Rightarrow> (Inl (wrap e), t1)
                      | (Inr _, t1) \<Rightarrow> (Inr True, t1))))"

section \<open>providers/azure-storage-provider.js\<close>

record azure_parsed =
  a_accountName :: "string option"
  a_containerName :: "string option"
  a_blobName :: string
  a_baseUrl :: string
  a_fullPath :: string

definition az_parseUrl :: "js_runtime \<Rightarrow> string \<Rightarrow> js_error + azure_parsed" where
  "az_parseUrl rt u =
     (case newURL rt u of
        Inl e \<Rightarrow> Inl (Error (''Failed to parse Azure URL: '' @ e_message e))
      | Inr urlObj \<Rightarrow>
          (let account = firstPart (js_split (CHR ''.'') (hostname urlObj));
               pathParts = filter (\<lambda>part. length part > 0)
                                  (js_split (CHR ''/'') (pathname urlObj));
               container = firstPart pathParts;
               blob = js_join ''/'' (drop 1 pathParts)
           in Inr \<lparr>a_accountName = account,
                    a_containerName = container,
                    a_blobName = blob,
                    a_baseUrl = ''https://'' @ tmpl account @ ''.blob.core.windows.net'',
                    a_fullPath = ''/'' @ tmpl container @ ''/'' @ blob\<rparr>))"

definition az_isContainerPublic :: "sdk \<Rightarrow> trace \<Rightarrow> string option \<Rightarrow> bool \<times> trace" where
  "az_isContainerPublic k t container =
     (case perform k (ContainerGetProperties container) t of
        (Inl e, t1) \<Rightarrow> (False, t1)
      | (Inr properties, t1) \<Rightarrow>
          (blobPublicAccess properties = Some ''blob''
           \<or> blobPublicAccess properties = Some ''container'', t1))"

text \<open>
  The first half of \<open>uploadFile\<close>: create the container when it does not exist (public
  access only then), otherwise compare its access with the requested one.
\<close>

definition az_prepareContainer ::
  "sdk \<Rightarrow> trace \<Rightarrow> string \<Rightarrow> string \<Rightarrow> (js_error + unit) \<times> trace" where
  "az_prepareContainer k t bucket access =
     (case perform k (ContainerExists (Some bucket)) t of
        (Inl e, t1) \<Rightarrow> (Inl e, t1)
      | (Inr containerExists, t1) \<Rightarrow>
          if \<not> asBoolean containerExists
          then (case perform k (ContainerCreate (Some bucket)) t1 of
                  (Inl e, t2) \<Rightarrow> (Inl e, t2)
                | (Inr _, t2) \<Rightarrow>
                    if access = ''public''
                    then (case perform k (ContainerSetAccessPolicy (Some bucket) ''blob'') t2 of
                            (Inl e, t3) \<Rightarrow> (Inl e, t3)
                          | (Inr _, t3) \<Rightarrow> (Inr (), t3))
                    else (Inr (), t2))
          else (let (isPublic, t2) = az_isContainerPublic k t1 (Some bucket);
                    containerAccess = (if isPublic then ''public'' else ''private'')
                in if containerAccess \<noteq> access
                   then (Inl (Error (''Container '' @ bucket @ '' access mismatch: currently ''
                                     @ containerAccess @ '', requested '' @ access)), t2)
                   else (Inr (), t2)))"

definition az_uploadFile ::
  "sdk \<Rightarrow> string \<Rightarrow> trace \<Rightarrow> string \<Rightarrow> buffer \<Rightarrow> string option \<Rightarrow> string \<Rightarrow> js_object \<Rightarrow> string
    \<Rightarrow> (js_error + string) \<times> trace" where
  "az_uploadFile k nowIso t bucket fileData prefix fileName metadata access =
     (let wrap = (\<lambda>e. Error (''Azure upload failed: '' @ e_message e))
      in case az_prepareContainer k t bucket access of
           (Inl e, t1) \<Rightarrow> (Inl (wrap e), t1)
         | (Inr _, t1) \<Rightarrow>
             (let blobPath = (if present prefix then tmpl prefix @ ''/'' @ fileName else fileName)
              in case perform k (BlobUpload (Some bucket) blobPath fileData (length fileData)
                                   ([''uploadedAt'' \<mapsto> JStr nowIso,
                                     ''provider'' \<mapsto> JStr ''azure''] ++ metadata)) t1 of
                   (Inl e, t2) \<Rightarrow> (Inl (wrap e), t2)
                 | (Inr _, t2) \<Rightarrow> (Inr (blobUrl k (Some bucket) blobPath), t2)))"

definition az_fileExists :: "js_runtime \<Rightarrow> sdk \<Rightarrow> trace \<Rightarrow> string \<Rightarrow> bool \<times> trace" where
  "az_fileExists rt k t fileUrl =
     (case az_parseUrl rt fileUrl of
        Inl e \<Rightarrow> (False, t)
      | Inr parsed \<Rightarrow>
          (case perform k (BlobExists (a_containerName parsed) (a_blobName parsed)) t of
             (Inl e, t1) \<Rightarrow> (False, t1)
           | (Inr r, t1) \<Rightarrow> (asBoolean r, t1)))"

text \<open>\<open>clock1\<close> and \<open>clock2\<close> are the two readings of \<open>new Date()\<close>.\<close>

definition az_generateDownloadUrl ::
  "js_runtime \<Rightarrow> sdk \<Rightarrow> js_value \<Rightarrow> js_value \<Rightarrow> trace \<Rightarrow> string \<Rightarrow> download_options
    \<Rightarrow> (js_error + download_result) \<times> trace" where
  "az_generateDownloadUrl rt k clock1 clock2 t permanentUrl options =
     (let wrap = (\<lambda>e. Error (''Azure SAS generation failed: '' @ e_message e))
      in case az_parseUrl rt permanentUrl of
           Inl e \<Rightarrow> (Inl (wrap e), t)
         | Inr parsed \<Rightarrow>
             (let (exists, t1) = az_fileExists rt k t permanentUrl
              in if \<not> exists then (Inl (wrap (Error ''File not found'')), t1)
                 else
                   (let (isPublic, t2) = az_isContainerPublic k t1 (a_containerName parsed)
                    in if isPublic
                       then (Inr \<lparr>r_downloadUrl = permanentUrl,
                                  r_isPublic = True,
                                  r_requiresSAS = False,
                                  r_expiresIn = JNull,
                                  r_expiresAt = None,
                                  r_fileName = lastPart (js_split (CHR ''/'')
                                                           (a_blobName parsed))\<rparr>,
                             t2)
                       else
                         (let expiryMinutes = js_or (opt_expiryMinutes options) (JNum 60);
                              startsOn = setMinutesPlus rt clock1 (JNum (- 5));
                              expiresOn = setMinutesPlus rt clock2 expiryMinutes
                          in case perform k (GenerateBlobSAS (a_containerName parsed)
                                                (a_blobName parsed) startsOn expiresOn) t2 of
                               (Inl e, t3) \<Rightarrow> (Inl (wrap e), t3)
                             | (Inr sasToken, t3) \<Rightarrow>
                                 (let sasUrl = permanentUrl @ ''?'' @ asString sasToken
                                  in case toISOString rt expiresOn of
                                       Inl e \<Rightarrow> (Inl (wrap e), t3)
                                     | Inr expiresAt \<Rightarrow>
                                         (Inr \<lparr>r_downloadUrl = sasUrl,
                                                r_isPublic = False,
                                                r_requiresSAS = True,
                                                r_expiresIn = js_times rt expiryMinutes (JNum 60),
                                                r_expiresAt = Some expiresAt,
                                                r_fileName = lastPart (js_split (CHR ''/'')
                                                                         (a_blobName parsed))\<rparr>,
                                          t3))))))"

definition az_deleteFile ::
  "js_runtime \<Rightarrow> sdk \<Rightarrow> trace \<Rightarrow> string \<Rightarrow> (js_error + bool) \<times> trace" where
  "az_deleteFile rt k t fileUrl =
     (let wrap = (\<lambda>e. Error (''Azure delete failed: '' @ e_message e))
      in case az_parseUrl rt fileUrl of
           Inl e \<Rightarrow> (Inl (wrap e), t)
         | Inr parsed \<Rightarrow>
             (case perform k (BlobDelete (a_containerName parsed) (Some (a_blobName parsed))) t of
                (Inl e, t1) \<Rightarrow> (Inl (wrap e), t1)
              | (Inr _, t1) \<Rightarrow> (Inr True, t1)))"

text \<open>
  \<open>deleteFileByBucketKey(containerName, blobName, metadata)\<close>: the blob name goes to the
  SDK as it is received, and \<open>metadata\<close> is not read.
\<close>

definition az_deleteFileByBucketKey ::
  "sdk \<Rightarrow> trace \<Rightarrow> string \<Rightarrow> string option \<Rightarrow> js_object option \<Rightarrow> (js_error + bool) \<times> trace" where
  "az_deleteFileByBucketKey k t container blob metadata =
     (let wrap = (\<lambda>e. Error (''Azure delete by bucket key failed: '' @ e_message e))
      in case perform k (BlobDelete (Some container) blob) t of
           (Inl e, t1) \<Rightarrow> (Inl (wrap e), t1)
         | (Inr _, t1) \<Rightarrow> (Inr True, t1))"

section \<open>providers/storage-provider-factory.js and the adapter constructors\<close>

text \<open>
  An adapter object: the serial number stands for the identity of the JavaScript
  object (two adapters are the same instance when their numbers agree), then
  \<open>this.config\<close> and the fields the constructor derives from it.
\<close>

datatype storage_provider =
    AzureStorageProvider nat platform_config string string
      \<comment> \<open>identity, config, accountName, accountKey\<close>
  | AWSS3StorageProvider nat platform_config string
      \<comment> \<open>identity, config, region\<close>

fun instanceId :: "storage_provider \<Rightarrow> nat" where
  "instanceId (AzureStorageProvider i _ _ _) = i"
| "instanceId (AWSS3StorageProvider i _ _) = i"

fun getProviderName :: "storage_provider \<Rightarrow> string" where
  "getProviderName (AzureStorageProvider _ _ _ _) = ''azure''"
| "getProviderName (AWSS3StorageProvider _ _ _) = ''s3''"

definition extractAccountName :: "string \<Rightarrow> js_error + string" where
  "extractAccountName cs =
     (case matchField ''AccountName='' cs of
        None \<Rightarrow> Inl (Error ''Could not extract AccountName from connection string'')
      | Some v \<Rightarrow> Inr v)"

definition extractAccountKey :: "string \<Rightarrow> js_error + string" where
  "extractAccountKey cs =
     (case matchField ''AccountKey='' cs of
        None \<Rightarrow> Inl (Error ''Could not extract AccountKey from connection string'')
      | Some v \<Rightarrow> Inr v)"

definition newAzureStorageProvider ::
  "sdk \<Rightarrow> nat \<Rightarrow> platform_config \<Rightarrow> js_error + storage_provider" where
  "newAzureStorageProvider k i config =
     (if \<not> present (cfg_connectionString config)
         \<and> (\<not> present (cfg_accountName config) \<or> \<not> present (cfg_accountKey config))
      then Inl (Error ''Azure connection string or account credentials required'')
      else if present (cfg_connectionString config)
      then (case extractAccountName (tmpl (cfg_connectionString config)) of
              Inl e \<Rightarrow> Inl e
            | Inr an \<Rightarrow>
                (case extractAccountKey (tmpl (cfg_connectionString config)) of
                   Inl e \<Rightarrow> Inl e
                 | Inr ak \<Rightarrow>
                     (case newBlobServiceClient k config of
                        Some e \<Rightarrow> Inl e
                      | None \<Rightarrow> Inr (AzureStorageProvider i config an ak))))
      else (case newBlobServiceClient k config of
              Some e \<Rightarrow> Inl e
            | None \<Rightarrow> Inr (AzureStorageProvider i config (tmpl (cfg_accountName config))
                             (tmpl (cfg_accountKey config)))))"

definition newAWSS3StorageProvider ::
  "sdk \<Rightarrow> nat \<Rightarrow> platform_config \<Rightarrow> js_error + storage_provider" where
  "newAWSS3StorageProvider k i config =
     (if \<not> present (cfg_accessKeyId config) \<or> \<not> present (cfg_secretAccessKey config)
         \<or> \<not> present (cfg_region config)
      then Inl (Error ''AWS credentials and region are required'')
      else (case newS3Client k config of
              Some e \<Rightarrow> Inl e
            | None \<Rightarrow> Inr (AWSS3StorageProvider i config (tmpl (cfg_region config)))))"

definition createProvider ::
  "sdk \<Rightarrow> nat \<Rightarrow> string option \<Rightarrow> platform_config \<Rightarrow> js_error + storage_provider" where
  "createProvider k i providerType config =
     (case providerType of
        None \<Rightarrow> Inl (TypeError (''Cannot read properties of undefined (reading ''
                                 @ [CHR 0x27] @ ''toLowerCase'' @ [CHR 0x27] @ '')''))
      | Some ty \<Rightarrow>
          (let l = toLowerCase ty
           in if l = ''azure'' then newAzureStorageProvider k i config
              else if l = ''aws'' then newAWSS3StorageProvider k i config
              else if l = ''s3'' then newAWSS3StorageProvider k i config
              else Inl (Error (''Unsupported storage provider: '' @ ty))))"


section \<open>services/multi-tenant-storage-service.js\<close>

text \<open>
  The state of the service is \<open>providerCache\<close>. Two logs are kept beside it to state how
  often the collaborators are called: the pairs for which \<open>getPlatformConfig\<close> was
  called and the pairs for which the factory was called. The serial number of a new
  adapter is the number of factory calls made before.
\<close>

record service =
  providerCache :: "string \<rightharpoonup> storage_provider"
  configLookups :: "(string \<times> string) list"
  factoryCalls :: "(string \<times> string) list"

definition newService :: service where
  "newService = \<lparr>providerCache = Map.empty, configLookups = [], factoryCalls = []\<rparr>"

definition cacheKey :: "string \<Rightarrow> string \<Rightarrow> string" where
  "cacheKey platformId environment = platformId @ ''-'' @ environment"

definition getStorageProvider ::
  "process_env \<Rightarrow> sdk \<Rightarrow> service \<Rightarrow> string \<Rightarrow> string \<Rightarrow> (js_error + storage_provider) \<times> service" where
  "getStorageProvider penv k s platformId environment =
     (case providerCache s (cacheKey platformId environment) of
        Some cached \<Rightarrow> (Inr cached, s)
      | None \<Rightarrow>
          (let s1 = s\<lparr>configLookups := configLookups s @ [(platformId, environment)]\<rparr>
           in case getPlatformConfig (platforms penv) platformId environment of
                Inl e \<Rightarrow> (Inl e, s1)
              | Inr config \<Rightarrow>
                  (let s2 = s1\<lparr>factoryCalls := factoryCalls s1 @ [(platformId, environment)]\<rparr>
                   in case createProvider k (length (factoryCalls s1)) (cfg_provider config)
                             config of
                        Inl e \<Rightarrow> (Inl e, s2)
                      | Inr created \<Rightarrow>
                          (Inr created,
                           s2\<lparr>providerCache :=
                                (providerCache s2)(cacheKey platformId environment \<mapsto> created)\<rparr>))))"

text \<open>The dispatch of \<open>provider.uploadFile\<close> on the class of the adapter.\<close>

fun provider_uploadFile ::
  "process_env \<Rightarrow> sdk \<Rightarrow> string \<Rightarrow> trace \<Rightarrow> storage_provider \<Rightarrow> string \<Rightarrow> buffer \<Rightarrow> string option
    \<Rightarrow> string \<Rightarrow> js_object \<Rightarrow> string \<Rightarrow> (js_error + string) \<times> trace" where
  "provider_uploadFile penv k nowIso t (AWSS3StorageProvider _ _ region) bucket fileData prefix
     fileName metadata access =
       s3_uploadFile penv k region nowIso t bucket fileData prefix fileName metadata access"
| "provider_uploadFile penv k nowIso t (AzureStorageProvider _ _ _ _) bucket fileData prefix
     fileName metadata access =
       az_uploadFile k nowIso t bucket fileData prefix fileName metadata access"

record upload_result =
  u_fileUrl :: string
  u_bucketName :: string
  u_prefix :: "string option"
  u_fileName :: string
  u_access :: string
  u_isPublic :: bool

text \<open>\<open>{ platformId, environment, provider: provider.getProviderName(), ...metadata }\<close>\<close>

definition enrichMetadata :: "string \<Rightarrow> string \<Rightarrow> storage_provider \<Rightarrow> js_object \<Rightarrow> js_object" where
  "enrichMetadata platformId environment p metadata =
     [''platformId'' \<mapsto> JStr platformId,
      ''environment'' \<mapsto> JStr environment,
      ''provider'' \<mapsto> JStr (getProviderName p)] ++ metadata"

definition uploadFile ::
  "process_env \<Rightarrow> sdk \<Rightarrow> string \<Rightarrow> service \<Rightarrow> trace \<Rightarrow> string \<Rightarrow> string \<Rightarrow> string \<Rightarrow> string option
    \<Rightarrow> string \<Rightarrow> buffer \<Rightarrow> string \<Rightarrow> js_object \<Rightarrow> (js_error + upload_result) \<times> service \<times> trace" where
  "uploadFile penv k nowIso s t platformId environment bucket prefix access fileData fileName
     metadata =
     (let wrap = (\<lambda>e. Error (''Upload failed: '' @ e_message e))
      in case getStorageProvider penv k s platformId environment of
           (Inl e, s1) \<Rightarrow> (Inl (wrap e), s1, t)
         | (Inr p, s1) \<Rightarrow>
             (let enrichedMetadata = enrichMetadata platformId environment p metadata
              in case provider_uploadFile penv k nowIso t p bucket fileData prefix fileName
                        enrichedMetadata access of
                   (Inl e, t1) \<Rightarrow> (Inl (wrap e), s1, t1)
                 | (Inr permanentUrl, t1) \<Rightarrow>
                     (Inr \<lparr>u_fileUrl = permanentUrl,
                            u_bucketName = bucket,
                            u_prefix = prefix,
                            u_fileName = fileName,
                            u_access = access,
                            u_isPublic = (access = ''public'')\<rparr>, s1, t1)))"

section \<open>A runtime, a store and an environment for the examples\<close>

text \<open>
  The theorems below hold for every runtime, SDK and \<open>process.env\<close>. The examples need
  particular ones.

  \<open>plainURL\<close> stands for the \<open>URL\<close> constructor on the addresses of the examples. It
  accepts \<open>https://host/path\<close> where the host is made of lower-case letters, digits,
  hyphens and dots, its last label starts with a letter and no label starts with
  \<open>xn--\<close>, and where the path is made of letters, digits and \<open>-._!*'()/\<close> with no
  segment \<open>.\<close> or \<open>..\<close>; there the constructor returns host and path as they are
  written. On every other string \<open>plainURL\<close> throws, which the constructor need not.
\<close>

definition lowerLetter :: "char \<Rightarrow> bool" where
  "lowerLetter c = (let n = of_char c :: nat in 97 \<le> n \<and> n \<le> 122)"

definition hostChar :: "char \<Rightarrow> bool" where
  "hostChar c = (let n = of_char c :: nat
                 in (97 \<le> n \<and> n \<le> 122) \<or> (48 \<le> n \<and> n \<le> 57) \<or> n = 45 \<or> n = 46)"

definition pathChar :: "char \<Rightarrow> bool" where
  "pathChar c = (let n = of_char c :: nat
                 in (97 \<le> n \<and> n \<le> 122) \<or> (65 \<le> n \<and> n \<le> 90) \<or> (48 \<le> n \<and> n \<le> 57)
                    \<or> n \<in> {45, 46, 95, 33, 42, 39, 40, 41, 47})"

definition plainURL :: "string \<Rightarrow> js_error + url" where
  "plainURL u =
     (let rest = drop 8 u;
          host = takeWhile (\<lambda>c. c \<noteq> CHR ''/'') rest;
          path = dropWhile (\<lambda>c. c \<noteq> CHR ''/'') rest;
          labels = js_split (CHR ''.'') host
      in if take 8 u = ''https://'' \<and> host \<noteq> [] \<and> list_all hostChar host
            \<and> list_all pathChar path
            \<and> (case lastPart labels of [] \<Rightarrow> False | c # _ \<Rightarrow> lowerLetter c)
            \<and> \<not> list_ex (\<lambda>l. take 4 l = ''xn--'') labels
            \<and> \<not> list_ex (\<lambda>seg. seg = ''.'' \<or> seg = ''..'') (js_split (CHR ''/'') path)
         then Inr \<lparr>hostname = host, pathname = (if path = [] then ''/'' else path)\<rparr>
         else Inl (TypeError ''Invalid URL''))"

text \<open>
  The other built-ins of the example runtime are stand-ins: no string is a number, a
  date is moved by whole minutes of 60000 ms, and every valid date is written as the
  same instant.
\<close>

definition demoRuntime :: js_runtime where
  "demoRuntime =
     \<lparr>newURL = plainURL,
      stringToNumber = (\<lambda>s. JNaN),
      setMinutesPlus = (\<lambda>d v. case (d, v) of
                                  (JNum a, JNum m) \<Rightarrow> JNum (a + m * 60000)
                                | _ \<Rightarrow> JNaN),
      toISOString = (\<lambda>d. case d of
                            JNum n \<Rightarrow> Inr ''2026-01-01T00:00:00.000Z''
                          | _ \<Rightarrow> Inl \<lparr>e_name = ''RangeError'', e_code = None,
                                      e_message = ''Invalid time value''\<rparr>)\<rparr>"

text \<open>
  \<open>fakeStore objectThere isPublic\<close> answers every request the same way whatever came
  before: objects exist or not as \<open>objectThere\<close> says, every container and bucket exists,
  and containers, buckets and objects are readable by everyone or not as \<open>isPublic\<close> says.
  Its \<open>blobUrl\<close> writes the container and blob names into the address as they are, which
  is what the SDK does for names that need no escaping, the only ones the examples use.
\<close>

definition plainReply :: sdk_reply where
  "plainReply = \<lparr>Grants = None, blobPublicAccess = None, asBoolean = True, asString = []\<rparr>"

definition aclReply :: "bool \<Rightarrow> sdk_reply" where
  "aclReply isPublic =
     plainReply\<lparr>Grants :=
       Some (if isPublic
             then [\<lparr>grantee_URI = Some ''http://acs.amazonaws.com/groups/global/AllUsers'',
                    permission = Some ''READ''\<rparr>]
             else [])\<rparr>"

definition fakeStore :: "bool \<Rightarrow> bool \<Rightarrow> sdk" where
  "fakeStore objectThere isPublic =
     \<lparr>respond = (\<lambda>t c. case c of
          HeadObjectCommand b key \<Rightarrow>
            if objectThere then Inr plainReply
            else Inl \<lparr>e_name = ''NotFound'', e_code = None, e_message = ''UnknownError''\<rparr>
        | BlobExists c b \<Rightarrow> Inr (plainReply\<lparr>asBoolean := objectThere\<rparr>)
        | ContainerGetProperties c \<Rightarrow>
            Inr (plainReply\<lparr>blobPublicAccess := (if isPublic then Some ''blob'' else None)\<rparr>)
        | GetObjectAclCommand b key \<Rightarrow> Inr (aclReply isPublic)
        | GetBucketAclCommand b \<Rightarrow> Inr (aclReply isPublic)
        | GetSignedUrl b key e \<Rightarrow> Inr (plainReply\<lparr>asString := ''https://signed.example/'' @ key\<rparr>)
        | GenerateBlobSAS c b s e \<Rightarrow> Inr (plainReply\<lparr>asString := ''sig=abc''\<rparr>)
        | _ \<Rightarrow> Inr plainReply),
      blobUrl = (\<lambda>c b. ''https://account.blob.core.windows.net/'' @ tmpl c @ ''/'' @ b),
      newS3Client = (\<lambda>config. None),
      newBlobServiceClient = (\<lambda>config. None)\<rparr>"

definition demoEnv :: process_env where
  "demoEnv = map_of
     [(''ONEDIGITAL_PROD_AWS_ACCESS_KEY'', ''AKIAEXAMPLE''),
      (''ONEDIGITAL_PROD_AWS_SECRET_KEY'', ''secret''),
      (''ONEDIGITAL_PROD_BUCKET_NAME'', ''onedigital-files''),
      (''ONEDIGITAL_UAT_CONNECTION_STRING'',
         ''DefaultEndpointsProtocol=https;AccountName=account;AccountKey=a2V5;EndpointSuffix=core.windows.net'')]"

section \<open>Sequences of calls and what the cache holds\<close>

text \<open>
  The service after a sequence of \<open>getStorageProvider\<close> calls, whatever they returned.
  Every other operation of the service reaches the cache through this method only.
\<close>

fun runCalls :: "process_env \<Rightarrow> sdk \<Rightarrow> service \<Rightarrow> (string \<times> string) list \<Rightarrow> service" where
  "runCalls penv k s [] = s"
| "runCalls penv k s ((platformId, environment) # calls) =
     runCalls penv k (snd (getStorageProvider penv k s platformId environment)) calls"

text \<open>The pairs that \<open>platforms\<close> lists.\<close>

definition registered :: "process_env \<Rightarrow> string \<Rightarrow> string \<Rightarrow> bool" where
  "registered penv platformId environment =
     (case map_of (platforms penv) platformId of
        None \<Rightarrow> False
      | Some platform \<Rightarrow> map_of (environments platform) environment \<noteq> None)"

text \<open>
  What holds of the cache at every moment: an entry sits under the key of a listed
  pair, its adapter was made by an earlier factory call, and no two entries hold the
  same instance.
\<close>

definition cacheInvariant :: "process_env \<Rightarrow> service \<Rightarrow> bool" where
  "cacheInvariant penv s =
     (\<forall>key a. providerCache s key = Some a \<longrightarrow>
        instanceId a < length (factoryCalls s)
        \<and> (\<exists>p e. registered penv p e \<and> key = cacheKey p e)
        \<and> (\<forall>key' a'. providerCache s key' = Some a' \<and> instanceId a' = instanceId a
                     \<longrightarrow> key' = key))"


section \<open>Properties of the sanitisers\<close>

lemma allowed_not_space: "allowedChar c \<Longrightarrow> \<not> isWhiteSpace c"
  by (auto simp: allowedChar_def isWhiteSpace_def Let_def)

lemma allowed_lower: "allowedChar c \<Longrightarrow> toLowerChar c = c"
  by (auto simp: allowedChar_def toLowerChar_def Let_def)

lemma toLowerCase_allowed: "list_all allowedChar s \<Longrightarrow> toLowerCase s = s"
  by (induction s) (simp_all add: toLowerCase_def allowed_lower)

lemma replaceSpaceRuns_allowed: "list_all allowedChar s \<Longrightarrow> replaceSpaceRuns b s = s"
  by (induction s arbitrary: b) (simp_all add: allowed_not_space)

lemma removeInvalid_allowed: "list_all allowedChar s \<Longrightarrow> removeInvalid s = s"
  by (induction s) (simp_all add: removeInvalid_def)

lemma collapseHyphens_id:
  "successively noHyphenPair s \<Longrightarrow> (b \<longrightarrow> s = [] \<or> hd s \<noteq> CHR ''-'') \<Longrightarrow> collapseHyphens b s = s"
proof (induction s arbitrary: b)
  case Nil
  then show ?case by simp
next
  case (Cons c cs)
  then show ?case
    by (cases cs) (auto simp: noHyphenPair_def)
qed

lemma stripLeading_id: "s = [] \<or> hd s \<noteq> CHR ''-'' \<Longrightarrow> stripLeadingHyphens s = s"
  by (cases s) (simp_all add: stripLeadingHyphens_def)

lemma stripTrailing_id: "s = [] \<or> last s \<noteq> CHR ''-'' \<Longrightarrow> stripTrailingHyphens s = s"
  by (cases s rule: rev_cases) (simp_all add: stripTrailingHyphens_def)

lemma removeHyphensBeforeDot_id:
  "successively noHyphenDot (replicate n (CHR ''-'') @ s) \<Longrightarrow>
   removeHyphensBeforeDot n s = replicate n (CHR ''-'') @ s"
proof (induction s arbitrary: n)
  case Nil
  then show ?case by simp
next
  case (Cons c cs)
  show ?case
  proof (cases "c = CHR ''-''")
    case True
    have eq: "replicate n (CHR ''-'') @ c # cs = replicate (Suc n) (CHR ''-'') @ cs"
      using True by (simp add: replicate_app_Cons_same)
    from Cons.prems have "successively noHyphenDot (replicate (Suc n) (CHR ''-'') @ cs)"
      unfolding eq .
    then have "removeHyphensBeforeDot (Suc n) cs = replicate (Suc n) (CHR ''-'') @ cs"
      by (rule Cons.IH)
    moreover have "removeHyphensBeforeDot n (c # cs) = removeHyphensBeforeDot (Suc n) cs"
      using True by simp
    ultimately show ?thesis
      unfolding eq by (simp only:)
  next
    case False
    from Cons.prems have tl: "successively noHyphenDot (replicate 0 (CHR ''-'') @ cs)"
      by (auto simp add: successively_append_iff successively_Cons)
    show ?thesis
    proof (cases "c = CHR ''.''")
      case True
      have "n = 0"
      proof (rule ccontr)
        assume "n \<noteq> 0"
        then have "last (replicate n (CHR ''-'')) = CHR ''-''" by simp
        with Cons.prems True \<open>n \<noteq> 0\<close> show False
          by (simp add: successively_append_iff noHyphenDot_def)
      qed
      with True Cons.IH[OF tl] show ?thesis by simp
    next
      case F2: False
      with False Cons.IH[OF tl] show ?thesis by simp
    qed
  qed
qed

lemma cleanName_fixed: "cleanName s \<Longrightarrow> sanitizeFileName s = s"
  unfolding sanitizeFileName_def cleanName_def
  using removeHyphensBeforeDot_id[of 0 s]
  by (auto simp: toLowerCase_allowed replaceSpaceRuns_allowed removeInvalid_allowed
      collapseHyphens_id stripLeading_id stripTrailing_id)

lemma collapseHyphens_set: "set (collapseHyphens b s) \<subseteq> set s"
  by (induction s arbitrary: b) auto

lemma collapseHyphens_hd:
  "collapseHyphens True s \<noteq> [] \<Longrightarrow> hd (collapseHyphens True s) \<noteq> CHR ''-''"
  by (induction s) (auto split: if_splits)

lemma collapseHyphens_pairs: "successively noHyphenPair (collapseHyphens b s)"
proof (induction s arbitrary: b)
  case Nil
  then show ?case by simp
next
  case (Cons c cs)
  show ?case
    using Cons.IH[of True] Cons.IH[of False] collapseHyphens_hd[of cs]
    by (auto simp: successively_Cons noHyphenPair_def)
qed

lemma successively_dropWhile: "successively P s \<Longrightarrow> successively P (dropWhile Q s)"
  by (induction s) (auto simp: successively_Cons)

lemma stripLeading_hd:
  "stripLeadingHyphens s \<noteq> [] \<Longrightarrow> hd (stripLeadingHyphens s) \<noteq> CHR ''-''"
  unfolding stripLeadingHyphens_def using hd_dropWhile[of "\<lambda>c. c = CHR ''-''" s] by simp

lemma stripTrailing_decomp:
  "\<exists>k. s = stripTrailingHyphens s @ replicate k (CHR ''-'')"
proof -
  let ?P = "\<lambda>c. c = CHR ''-''"
  have "rev s = takeWhile ?P (rev s) @ dropWhile ?P (rev s)" by simp
  then have "s = rev (dropWhile ?P (rev s)) @ rev (takeWhile ?P (rev s))"
    by (metis rev_append rev_rev_ident)
  moreover have "rev (takeWhile ?P (rev s)) = replicate (length (takeWhile ?P (rev s))) (CHR ''-'')"
    by (rule replicate_eqI) (auto dest: set_takeWhileD)
  ultimately show ?thesis unfolding stripTrailingHyphens_def by metis
qed

lemma stripTrailing_last:
  "stripTrailingHyphens s \<noteq> [] \<Longrightarrow> last (stripTrailingHyphens s) \<noteq> CHR ''-''"
  unfolding stripTrailingHyphens_def
  using hd_dropWhile[of "\<lambda>c. c = CHR ''-''" "rev s"] by (simp add: last_rev)

lemma stripTrailing_props:
  assumes "list_all A s" "successively P s" "s = [] \<or> hd s \<noteq> CHR ''-''"
  shows "list_all A (stripTrailingHyphens s)" "successively P (stripTrailingHyphens s)"
    "stripTrailingHyphens s = [] \<or> hd (stripTrailingHyphens s) \<noteq> CHR ''-''"
proof -
  obtain k where k: "s = stripTrailingHyphens s @ replicate k (CHR ''-'')"
    using stripTrailing_decomp by blast
  show "list_all A (stripTrailingHyphens s)"
    using assms(1) by (subst (asm) k) simp
  show "successively P (stripTrailingHyphens s)"
    using assms(2) by (subst (asm) k) (simp add: successively_append_iff)
  show "stripTrailingHyphens s = [] \<or> hd (stripTrailingHyphens s) \<noteq> CHR ''-''"
    using assms(3) by (subst (asm) (1 2) k) auto
qed

lemma hyphen_allowed: "allowedChar (CHR ''-'')"
  by (simp add: allowedChar_def)

lemma rhd_allowed: "list_all allowedChar s \<Longrightarrow> list_all allowedChar (removeHyphensBeforeDot n s)"
  by (induction s arbitrary: n) (auto simp: hyphen_allowed list_all_iff)

lemma rhd_hd:
  "s \<noteq> [] \<Longrightarrow> hd s \<noteq> CHR ''-'' \<Longrightarrow>
   removeHyphensBeforeDot 0 s \<noteq> [] \<and> hd (removeHyphensBeforeDot 0 s) \<noteq> CHR ''-''"
  by (cases s) auto

lemma rhd_last:
  "c \<noteq> CHR ''-'' \<Longrightarrow>
   removeHyphensBeforeDot n (s @ [c]) \<noteq> [] \<and> last (removeHyphensBeforeDot n (s @ [c])) = c"
  by (induction s arbitrary: n) auto

lemma replicate_pairs: "successively noHyphenPair (replicate n (CHR ''-'')) \<Longrightarrow> n \<le> 1"
  by (cases n rule: nat.exhaust; cases "n - 1") (auto simp: noHyphenPair_def)

lemma rhd_good:
  "successively noHyphenPair (replicate n (CHR ''-'') @ s) \<Longrightarrow>
   successively (\<lambda>a b. noHyphenPair a b \<and> noHyphenDot a b) (removeHyphensBeforeDot n s)"
proof (induction s arbitrary: n)
  case Nil
  then have "n \<le> 1" using replicate_pairs by simp
  then have "n = 0 \<or> n = 1" by auto
  then show ?case by auto
next
  case (Cons c cs)
  show ?case
  proof (cases "c = CHR ''-''")
    case True
    have eq: "replicate n (CHR ''-'') @ c # cs = replicate (Suc n) (CHR ''-'') @ cs"
      using True by (simp add: replicate_app_Cons_same)
    from Cons.prems have "successively noHyphenPair (replicate (Suc n) (CHR ''-'') @ cs)"
      unfolding eq .
    then show ?thesis using True Cons.IH by simp
  next
    case False
    from Cons.prems have n1: "n \<le> 1"
      using replicate_pairs by (auto simp: successively_append_iff)
    from Cons.prems have "successively noHyphenPair (replicate 0 (CHR ''-'') @ cs)"
      by (auto simp add: successively_append_iff successively_Cons)
    then have ih: "successively (\<lambda>a b. noHyphenPair a b \<and> noHyphenDot a b) (removeHyphensBeforeDot 0 cs)"
      by (rule Cons.IH)
    from n1 have "n = 0 \<or> n = 1" by auto
    then show ?thesis
      using False ih
      by (auto simp: successively_Cons noHyphenPair_def noHyphenDot_def)
  qed
qed

lemma successively_conjD:
  "successively (\<lambda>a b. P a b \<and> Q a b) s \<Longrightarrow> successively P s \<and> successively Q s"
  by (induction s) (auto simp: successively_Cons)

lemma sanitizeFileName_clean: "cleanName (sanitizeFileName x)"
proof -
  define a where "a = removeInvalid (replaceSpaceRuns False (toLowerCase x))"
  define b where "b = collapseHyphens False a"
  define c where "c = stripLeadingHyphens b"
  define d where "d = stripTrailingHyphens c"
  have fx: "sanitizeFileName x = removeHyphensBeforeDot 0 d"
    by (simp add: sanitizeFileName_def a_def b_def c_def d_def)
  have a1: "list_all allowedChar a"
    by (simp add: a_def removeInvalid_def list_all_iff)
  have b1: "list_all allowedChar b"
    using a1 collapseHyphens_set[of False a] by (auto simp: b_def list_all_iff)
  have b2: "successively noHyphenPair b"
    by (simp add: b_def collapseHyphens_pairs)
  have c1: "list_all allowedChar c"
    using b1 by (auto simp: c_def stripLeadingHyphens_def list_all_iff dest: set_dropWhileD)
  have c2: "successively noHyphenPair c"
    using b2 by (simp add: c_def stripLeadingHyphens_def successively_dropWhile)
  have c3: "c = [] \<or> hd c \<noteq> CHR ''-''"
    using stripLeading_hd[of b] by (auto simp: c_def)
  have d1: "list_all allowedChar d" and d2: "successively noHyphenPair d"
    and d3: "d = [] \<or> hd d \<noteq> CHR ''-''"
    using stripTrailing_props[OF c1 c2 c3] by (simp_all add: d_def)
  have d4: "d = [] \<or> last d \<noteq> CHR ''-''"
    using stripTrailing_last[of c] by (auto simp: d_def)
  let ?r = "removeHyphensBeforeDot 0 d"
  have r1: "list_all allowedChar ?r" using d1 by (rule rhd_allowed)
  have "successively (\<lambda>a b. noHyphenPair a b \<and> noHyphenDot a b) ?r"
    using rhd_good[of 0 d] d2 by simp
  then have r2: "successively noHyphenPair ?r" and r3: "successively noHyphenDot ?r"
    using successively_conjD by blast+
  have r4: "?r \<noteq> [] \<longrightarrow> hd ?r \<noteq> CHR ''-'' \<and> last ?r \<noteq> CHR ''-''"
  proof (cases "d = []")
    case True
    then show ?thesis by simp
  next
    case False
    then obtain ys y where dy: "d = ys @ [y]" by (cases d rule: rev_cases) auto
    with d4 have "y \<noteq> CHR ''-''" by simp
    then have "last ?r = y" unfolding dy using rhd_last by blast
    moreover have "hd ?r \<noteq> CHR ''-''" using rhd_hd[of d] False d3 by blast
    ultimately show ?thesis using \<open>y \<noteq> CHR ''-''\<close> by simp
  qed
  show ?thesis unfolding fx cleanName_def using r1 r2 r3 r4 by blast
qed

lemma sanitizeFileName_idem: "sanitizeFileName (sanitizeFileName x) = sanitizeFileName x"
  by (rule cleanName_fixed) (rule sanitizeFileName_clean)

lemma toLowerChar_idem: "toLowerChar (toLowerChar c) = toLowerChar c"
  by (auto simp: toLowerChar_def Let_def)

lemma toLowerChar_space: "isWhiteSpace (toLowerChar c) = isWhiteSpace c"
  by (auto simp: toLowerChar_def isWhiteSpace_def Let_def)

lemma dropTrailing_decomp: "t = rev (dropWhile Q (rev t)) @ rev (takeWhile Q (rev t))"
proof -
  have "rev t = takeWhile Q (rev t) @ dropWhile Q (rev t)" by simp
  then show ?thesis by (metis rev_append rev_rev_ident)
qed

lemma dropTrailing_hd:
  "rev (dropWhile Q (rev t)) \<noteq> [] \<Longrightarrow> hd (rev (dropWhile Q (rev t))) = hd t"
  using dropTrailing_decomp[of t Q] by (metis hd_append2)

lemma dropTrailing_id: "t = [] \<or> \<not> Q (last t) \<Longrightarrow> rev (dropWhile Q (rev t)) = t"
  by (cases t rule: rev_cases) auto

lemma trim_hd: "trim s \<noteq> [] \<Longrightarrow> \<not> isWhiteSpace (hd (trim s))"
proof -
  assume ne: "trim s \<noteq> []"
  let ?t = "dropWhile isWhiteSpace s"
  have "hd (trim s) = hd ?t" using ne unfolding trim_def by (rule dropTrailing_hd)
  moreover have "?t \<noteq> []"
  proof
    assume "?t = []"
    then have "trim s = []" unfolding trim_def by (simp only: rev.simps dropWhile.simps)
    with ne show False by simp
  qed
  ultimately show ?thesis using hd_dropWhile[of isWhiteSpace s] by simp
qed

lemma trim_id:
  "s = [] \<or> (\<not> isWhiteSpace (hd s) \<and> \<not> isWhiteSpace (last s)) \<Longrightarrow> trim s = s"
proof -
  assume a: "s = [] \<or> (\<not> isWhiteSpace (hd s) \<and> \<not> isWhiteSpace (last s))"
  then have d: "dropWhile isWhiteSpace s = s" by (cases s) auto
  from a have "rev (dropWhile isWhiteSpace (rev s)) = s" by (intro dropTrailing_id) auto
  then show ?thesis unfolding trim_def d .
qed

lemma trim_shorter:
  assumes "s \<noteq> []" "isWhiteSpace (last s)"
  shows "length (trim s) < length s"
proof -
  let ?t = "dropWhile isWhiteSpace s"
  have le: "length ?t \<le> length s" by (rule length_dropWhile_le)
  show ?thesis
  proof (cases "?t = []")
    case True
    then have "trim s = []" unfolding trim_def by (simp only: rev.simps dropWhile.simps)
    then show ?thesis using assms(1) by simp
  next
    case False
    have "s = takeWhile isWhiteSpace s @ ?t" by simp
    then have "last s = last ?t" using False by (metis last_appendR)
    then obtain ys where "?t = ys @ [last s]"
      using False by (metis append_butlast_last_id)
    then have "rev ?t = last s # rev ys" by simp
    then have "length (dropWhile isWhiteSpace (rev ?t)) \<le> length ys"
      using assms(2) length_dropWhile_le[of isWhiteSpace "rev ys"] by simp
    moreover have "length ?t = Suc (length ys)" using \<open>?t = ys @ [last s]\<close>
      by (metis length_append_singleton)
    ultimately show ?thesis using le by (simp add: trim_def)
  qed
qed

lemma stripTrailing_length: "length (stripTrailingHyphens s) \<le> length s"
  unfolding stripTrailingHyphens_def
  using length_dropWhile_le[of "\<lambda>c. c = CHR ''-''" "rev s"] by simp

lemma sanitizeBucketName_hd:
  assumes "sanitizeBucketName x \<noteq> []"
  shows "\<not> isWhiteSpace (hd (sanitizeBucketName x))"
proof -
  let ?l = "toLowerCase (trim x)"
  have "hd (sanitizeBucketName x) = hd ?l"
    using assms unfolding sanitizeBucketName_def stripTrailingHyphens_def
    by (rule dropTrailing_hd)
  moreover have ne: "trim x \<noteq> []"
    using assms by (auto simp: sanitizeBucketName_def stripTrailingHyphens_def toLowerCase_def)
  moreover have "hd ?l = toLowerChar (hd (trim x))"
    using ne by (simp add: toLowerCase_def hd_map)
  ultimately show ?thesis using trim_hd[OF ne] by (simp add: toLowerChar_space)
qed

lemma sanitizeBucketName_lower:
  "toLowerCase (sanitizeBucketName x) = sanitizeBucketName x"
proof -
  let ?l = "toLowerCase (trim x)"
  have l: "toLowerCase ?l = ?l" by (simp add: toLowerCase_def toLowerChar_idem)
  have "?l = sanitizeBucketName x @ rev (takeWhile (\<lambda>c. c = CHR ''-'') (rev ?l))"
    unfolding sanitizeBucketName_def stripTrailingHyphens_def by (rule dropTrailing_decomp)
  then obtain zs where z: "?l = sanitizeBucketName x @ zs" by blast
  from l have "toLowerCase (sanitizeBucketName x @ zs) = sanitizeBucketName x @ zs"
    unfolding z[symmetric] .
  then show ?thesis by (simp add: toLowerCase_def)
qed

lemma sanitizeBucketName_idem_iff:
  "(sanitizeBucketName (sanitizeBucketName x) = sanitizeBucketName x) =
   (sanitizeBucketName x = [] \<or> \<not> isWhiteSpace (last (sanitizeBucketName x)))"
proof -
  let ?y = "sanitizeBucketName x"
  have nolast: "?y = [] \<or> last ?y \<noteq> CHR ''-''"
    using stripTrailing_last[of "toLowerCase (trim x)"] by (auto simp: sanitizeBucketName_def)
  show ?thesis
  proof (cases "?y = [] \<or> \<not> isWhiteSpace (last ?y)")
    case True
    then have "trim ?y = ?y" using sanitizeBucketName_hd[of x] by (intro trim_id) auto
    then have "sanitizeBucketName ?y = stripTrailingHyphens ?y"
      by (simp add: sanitizeBucketName_def[of ?y] sanitizeBucketName_lower)
    then show ?thesis using True nolast by (simp add: stripTrailing_id)
  next
    case False
    then have "length (trim ?y) < length ?y" by (intro trim_shorter) auto
    moreover have "length (sanitizeBucketName ?y) \<le> length (trim ?y)"
      using stripTrailing_length[of "toLowerCase (trim ?y)"]
      by (simp add: sanitizeBucketName_def[of ?y] toLowerCase_def)
    ultimately have "sanitizeBucketName ?y \<noteq> ?y" by auto
    then show ?thesis using False by simp
  qed
qed

text \<open>
  C8 (as amended). \<open>sanitizeFileName\<close> is idempotent on every string. \<open>sanitizeBucketName\<close>
  trims before it strips the trailing hyphens, so its result can end in white space that
  only a second application trims: it is idempotent exactly on the inputs whose
  sanitised form does not end in a white-space code unit. Both functions are total and
  send the empty string to the empty string.
\<close>

theorem sanitize_idempotent:
  "sanitizeFileName (sanitizeFileName x) = sanitizeFileName x \<and>
   sanitizeFileName [] = [] \<and> sanitizeBucketName [] = [] \<and>
   ((sanitizeBucketName (sanitizeBucketName y) = sanitizeBucketName y) =
    (sanitizeBucketName y = [] \<or> \<not> isWhiteSpace (last (sanitizeBucketName y))))"
proof -
  have "sanitizeFileName [] = []"
    by (simp add: sanitizeFileName_def toLowerCase_def removeInvalid_def
        stripLeadingHyphens_def stripTrailingHyphens_def)
  moreover have "sanitizeBucketName [] = []"
    by (simp add: sanitizeBucketName_def toLowerCase_def trim_def stripTrailingHyphens_def)
  ultimately show ?thesis
    using sanitizeFileName_idem[of x] sanitizeBucketName_idem_iff[of y] by simp
qed

theorem sanitize_idempotent_witness:
  "sanitizeFileName (sanitizeFileName ''My  File-.TXT'') = sanitizeFileName ''My  File-.TXT'' \<and>
   sanitizeBucketName '' Docs--'' = ''docs'' \<and> \<not> isWhiteSpace (last ''docs'') \<and>
   sanitizeBucketName (sanitizeBucketName '' Docs--'') = sanitizeBucketName '' Docs--''"
proof -
  have v: "sanitizeBucketName '' Docs--'' = ''docs''"
    by code_simp
  have w: "\<not> isWhiteSpace (last ''docs'')"
    by (simp add: isWhiteSpace_def)
  show ?thesis
    using sanitize_idempotent[of "''My  File-.TXT''" "'' Docs--''"] v w by simp
qed

text \<open>
  C8 as stated fails for \<open>sanitizeBucketName\<close>: \<open>"a -"\<close> is sent to \<open>"a "\<close>, which a
  second application sends to \<open>"a"\<close>.
\<close>

theorem sanitizeBucketName_not_idempotent:
  "sanitizeBucketName (sanitizeBucketName ''a -'') \<noteq> sanitizeBucketName ''a -''"
  by (simp add: sanitizeBucketName_def toLowerCase_def trim_def stripTrailingHyphens_def
      toLowerChar_def isWhiteSpace_def)

section \<open>Properties of the adapters\<close>

lemma issued_append: "issued t (t @ xs) = xs"
  by (simp add: issued_def)

lemma issued_self: "issued t t = []"
  by (simp add: issued_def)

text \<open>The definitions that evaluating an example unfolds.\<close>

lemmas eval_defs =
  s3_generateDownloadUrl_def s3_fileExists_def s3_parseUrl_def s3_isObjectPublic_def
  s3_isBucketPublic_def az_generateDownloadUrl_def az_fileExists_def az_parseUrl_def
  az_isContainerPublic_def perform_def demoRuntime_def plainURL_def fakeStore_def plainReply_def
  aclReply_def isPublicGrant_def firstPart_def lastPart_def hostChar_def pathChar_def
  lowerLetter_def js_or_def js_times_def js_plus_def tmpl_def present_def Error_def TypeError_def
  issued_def Let_def

text \<open>
  C10. In both adapters \<open>deleteFile\<close> and \<open>deleteFileByBucketKey\<close> never return
  \<open>false\<close>: the result is \<open>true\<close>, exactly when the delete request was made and the SDK
  answered it without throwing (whether or not an object was there), and otherwise an
  error whose message starts with the name of the operation.
\<close>

theorem delete_never_false:
  "(fst (s3_deleteFile rt k region t u) = Inr True
      \<or> (\<exists>m. fst (s3_deleteFile rt k region t u) = Inl (Error (''S3 delete failed: '' @ m))))
   \<and> ((fst (s3_deleteFile rt k region t u) = Inr True)
        = (\<exists>p r. s3_parseUrl rt region u = Inr p
                 \<and> respond k t (DeleteObjectCommand (p_bucketName p) (p_key p)) = Inr r))
   \<and> (fst (s3_deleteFileByBucketKey penv k t bucket key metadata) = Inr True
      \<or> (\<exists>m. fst (s3_deleteFileByBucketKey penv k t bucket key metadata)
                = Inl (Error (''S3 delete by bucket key failed: '' @ m))))
   \<and> ((fst (s3_deleteFileByBucketKey penv k t bucket key metadata) = Inr True)
        = (\<exists>md cfg r. metadata = Some md
                 \<and> getPlatformConfig (platforms penv) (String_js (getProp md ''platformId''))
                      (String_js (getProp md ''environment'')) = Inr cfg
                 \<and> respond k t (DeleteObjectCommand (cfg_bucketName cfg)
                       (if present key then bucket @ ''/'' @ tmpl key else bucket)) = Inr r))
   \<and> (fst (az_deleteFile rt k t u) = Inr True
      \<or> (\<exists>m. fst (az_deleteFile rt k t u) = Inl (Error (''Azure delete failed: '' @ m))))
   \<and> ((fst (az_deleteFile rt k t u) = Inr True)
        = (\<exists>p r. az_parseUrl rt u = Inr p
                 \<and> respond k t (BlobDelete (a_containerName p) (Some (a_blobName p))) = Inr r))
   \<and> (fst (az_deleteFileByBucketKey k t container blob metadata) = Inr True
      \<or> (\<exists>m. fst (az_deleteFileByBucketKey k t container blob metadata)
                = Inl (Error (''Azure delete by bucket key failed: '' @ m))))
   \<and> ((fst (az_deleteFileByBucketKey k t container blob metadata) = Inr True)
        = (\<exists>r. respond k t (BlobDelete (Some container) blob) = Inr r))"
proof -
  have a: "fst (s3_deleteFile rt k region t u) = Inr True
      \<or> (\<exists>m. fst (s3_deleteFile rt k region t u) = Inl (Error (''S3 delete failed: '' @ m)))"
    by (auto simp: s3_deleteFile_def perform_def Let_def split: sum.splits prod.splits)
  have a': "(fst (s3_deleteFile rt k region t u) = Inr True)
        = (\<exists>p r. s3_parseUrl rt region u = Inr p
                 \<and> respond k t (DeleteObjectCommand (p_bucketName p) (p_key p)) = Inr r)"
    by (auto simp: s3_deleteFile_def perform_def Let_def split: sum.splits prod.splits)
  have b: "fst (s3_deleteFileByBucketKey penv k t bucket key metadata) = Inr True
      \<or> (\<exists>m. fst (s3_deleteFileByBucketKey penv k t bucket key metadata)
                = Inl (Error (''S3 delete by bucket key failed: '' @ m)))"
    by (auto simp: s3_deleteFileByBucketKey_def perform_def Let_def
        split: sum.splits prod.splits option.splits)
  have b': "(fst (s3_deleteFileByBucketKey penv k t bucket key metadata) = Inr True)
        = (\<exists>md cfg r. metadata = Some md
                 \<and> getPlatformConfig (platforms penv) (String_js (getProp md ''platformId''))
                      (String_js (getProp md ''environment'')) = Inr cfg
                 \<and> respond k t (DeleteObjectCommand (cfg_bucketName cfg)
                       (if present key then bucket @ ''/'' @ tmpl key else bucket)) = Inr r)"
    by (auto simp: s3_deleteFileByBucketKey_def perform_def Let_def
        split: sum.splits prod.splits option.splits)
  have c: "fst (az_deleteFile rt k t u) = Inr True
      \<or> (\<exists>m. fst (az_deleteFile rt k t u) = Inl (Error (''Azure delete failed: '' @ m)))"
    by (auto simp: az_deleteFile_def perform_def Let_def split: sum.splits prod.splits)
  have c': "(fst (az_deleteFile rt k t u) = Inr True)
        = (\<exists>p r. az_parseUrl rt u = Inr p
                 \<and> respond k t (BlobDelete (a_containerName p) (Some (a_blobName p))) = Inr r)"
    by (auto simp: az_deleteFile_def perform_def Let_def split: sum.splits prod.splits)
  have d: "fst (az_deleteFileByBucketKey k t container blob metadata) = Inr True
      \<or> (\<exists>m. fst (az_deleteFileByBucketKey k t container blob metadata)
                = Inl (Error (''Azure delete by bucket key failed: '' @ m)))"
    by (auto simp: az_deleteFileByBucketKey_def perform_def Let_def split: sum.splits prod.splits)
  have d': "(fst (az_deleteFileByBucketKey k t container blob metadata) = Inr True)
        = (\<exists>r. respond k t (BlobDelete (Some container) blob) = Inr r)"
    by (auto simp: az_deleteFileByBucketKey_def perform_def Let_def split: sum.splits prod.splits)
  from a a' b b' c c' d d' show ?thesis by blast
qed

lemma js_or_falsy: "\<not> truthy v \<Longrightarrow> js_or v d = d"
  by (simp add: js_or_def)

lemma sixty_minutes: "js_times rt (JNum 60) (JNum 60) = JNum 3600"
  by (simp add: js_times_def)

lemma s3_generate_falsy:
  assumes "\<not> truthy (opt_expiryMinutes options)"
  shows "s3_generateDownloadUrl rt k region now t u options
         = s3_generateDownloadUrl rt k region now t u (options\<lparr>opt_expiryMinutes := JNum 60\<rparr>)"
proof -
  have d: "js_or (opt_expiryMinutes options) (JNum 60) = JNum 60"
    using assms by (rule js_or_falsy)
  have d': "js_or (opt_expiryMinutes (options\<lparr>opt_expiryMinutes := JNum 60\<rparr>)) (JNum 60) = JNum 60"
    by (simp add: js_or_def)
  show ?thesis unfolding s3_generateDownloadUrl_def d d' ..
qed

lemma az_generate_falsy:
  assumes "\<not> truthy (opt_expiryMinutes options)"
  shows "az_generateDownloadUrl rt k c1 c2 t u options
         = az_generateDownloadUrl rt k c1 c2 t u (options\<lparr>opt_expiryMinutes := JNum 60\<rparr>)"
proof -
  have d: "js_or (opt_expiryMinutes options) (JNum 60) = JNum 60"
    using assms by (rule js_or_falsy)
  have d': "js_or (opt_expiryMinutes (options\<lparr>opt_expiryMinutes := JNum 60\<rparr>)) (JNum 60) = JNum 60"
    by (simp add: js_or_def)
  show ?thesis unfolding az_generateDownloadUrl_def d d' ..
qed

lemma s3_fileExists_trace:
  "snd (s3_fileExists rt k region t u) = t \<or> (\<exists>b key. snd (s3_fileExists rt k region t u) = t @ [HeadObjectCommand b key])"
  by (auto simp: s3_fileExists_def perform_def Let_def split: sum.splits prod.splits)

lemma s3_generate_signed:
  assumes "fst (s3_generateDownloadUrl rt k region now t u options) = Inr res" "r_requiresSAS res"
  shows "r_expiresIn res = js_times rt (js_or (opt_expiryMinutes options) (JNum 60)) (JNum 60)"
  using assms
  by (auto simp: s3_generateDownloadUrl_def Let_def split: sum.splits prod.splits if_splits)

lemma az_generate_signed:
  assumes "fst (az_generateDownloadUrl rt k c1 c2 t u options) = Inr res" "r_requiresSAS res"
  shows "r_expiresIn res = js_times rt (js_or (opt_expiryMinutes options) (JNum 60)) (JNum 60)"
  using assms
  by (auto simp: az_generateDownloadUrl_def Let_def split: sum.splits prod.splits if_splits)

lemma s3_generate_sign_request:
  assumes "GetSignedUrl b key e \<in> set (issued t (snd (s3_generateDownloadUrl rt k region now t u options)))"
  shows "e = js_times rt (js_or (opt_expiryMinutes options) (JNum 60)) (JNum 60)"
  using assms
  by (auto simp: s3_generateDownloadUrl_def s3_fileExists_def s3_isObjectPublic_def
      s3_isBucketPublic_def perform_def Let_def issued_def
      split: sum.splits prod.splits if_splits)

lemma az_generate_sign_request:
  assumes "GenerateBlobSAS c b s e \<in> set (issued t (snd (az_generateDownloadUrl rt k c1 c2 t u options)))"
  shows "e = setMinutesPlus rt c2 (js_or (opt_expiryMinutes options) (JNum 60))"
  using assms
  by (auto simp: az_generateDownloadUrl_def az_fileExists_def az_isContainerPublic_def
      perform_def Let_def issued_def
      split: sum.splits prod.splits if_splits)

text \<open>
  C9. In both adapters a falsy \<open>expiryMinutes\<close> option (\<open>undefined\<close>, \<open>null\<close>, \<open>false\<close>,
  \<open>0\<close>, \<open>NaN\<close>, the empty string) gives the same outcome as the option \<open>60\<close>: a
  signed result reports \<open>expiresIn = 3600\<close>, the S3 signing request asks for 3600
  seconds and the Azure signature expires 60 minutes after the clock reading.
\<close>

theorem falsy_expiry_defaults:
  assumes "\<not> truthy (opt_expiryMinutes options)"
  shows "s3_generateDownloadUrl rt k region now t u options
           = s3_generateDownloadUrl rt k region now t u (options\<lparr>opt_expiryMinutes := JNum 60\<rparr>)
       \<and> az_generateDownloadUrl rt k c1 c2 t u options
           = az_generateDownloadUrl rt k c1 c2 t u (options\<lparr>opt_expiryMinutes := JNum 60\<rparr>)
       \<and> (\<forall>res. fst (s3_generateDownloadUrl rt k region now t u options) = Inr res
                 \<and> r_requiresSAS res \<longrightarrow> r_expiresIn res = JNum 3600)
       \<and> (\<forall>res. fst (az_generateDownloadUrl rt k c1 c2 t u options) = Inr res
                 \<and> r_requiresSAS res \<longrightarrow> r_expiresIn res = JNum 3600)
       \<and> (\<forall>b key e. GetSignedUrl b key e
                       \<in> set (issued t (snd (s3_generateDownloadUrl rt k region now t u options)))
                 \<longrightarrow> e = JNum 3600)
       \<and> (\<forall>c b s e. GenerateBlobSAS c b s e
                       \<in> set (issued t (snd (az_generateDownloadUrl rt k c1 c2 t u options)))
                 \<longrightarrow> e = setMinutesPlus rt c2 (JNum 60))"
proof -
  have d: "js_or (opt_expiryMinutes options) (JNum 60) = JNum 60"
    using assms by (rule js_or_falsy)
  show ?thesis
    using s3_generate_falsy[OF assms] az_generate_falsy[OF assms]
      s3_generate_signed[of rt k region now t u options]
      az_generate_signed[of rt k c1 c2 t u options]
      s3_generate_sign_request[of _ _ _ t rt k region now u options]
      az_generate_sign_request[of _ _ _ _ t rt k c1 c2 u options]
    unfolding d sixty_minutes by blast
qed

theorem falsy_expiry_defaults_witness:
  "\<not> truthy (JNum 0)
   \<and> s3_generateDownloadUrl demoRuntime (fakeStore True False) ''ap-south-1'' 1000 []
            ''https://files.s3.ap-south-1.amazonaws.com/documents/file.pdf''
            \<lparr>opt_expiryMinutes = JNum 0\<rparr>
       = (Inr \<lparr>r_downloadUrl = ''https://signed.example/documents/file.pdf'',
                r_isPublic = False, r_requiresSAS = True, r_expiresIn = JNum 3600,
                r_expiresAt = Some ''2026-01-01T00:00:00.000Z'', r_fileName = ''file.pdf''\<rparr>,
          [HeadObjectCommand (Some ''files'') ''documents/file.pdf'',
           GetObjectAclCommand (Some ''files'') ''documents/file.pdf'',
           GetBucketAclCommand (Some ''files''),
           GetSignedUrl (Some ''files'') ''documents/file.pdf'' (JNum 3600)])
   \<and> az_generateDownloadUrl demoRuntime (fakeStore True False) (JNum 1000) (JNum 2000) []
            ''https://account.blob.core.windows.net/documents/a/file.pdf''
            \<lparr>opt_expiryMinutes = JStr []\<rparr>
       = (Inr \<lparr>r_downloadUrl = ''https://account.blob.core.windows.net/documents/a/file.pdf?sig=abc'',
                r_isPublic = False, r_requiresSAS = True, r_expiresIn = JNum 3600,
                r_expiresAt = Some ''2026-01-01T00:00:00.000Z'', r_fileName = ''file.pdf''\<rparr>,
          [BlobExists (Some ''documents'') ''a/file.pdf'',
           ContainerGetProperties (Some ''documents''),
           GenerateBlobSAS (Some ''documents'') ''a/file.pdf'' (JNum (- 299000)) (JNum 3602000)])"
proof -
  have f: "\<not> truthy (opt_expiryMinutes \<lparr>opt_expiryMinutes = JNum 0\<rparr>)" by simp
  have g: "\<not> truthy (opt_expiryMinutes \<lparr>opt_expiryMinutes = JStr []\<rparr>)" by simp
  have e: "s3_generateDownloadUrl demoRuntime (fakeStore True False) ''ap-south-1'' 1000 []
            ''https://files.s3.ap-south-1.amazonaws.com/documents/file.pdf''
            \<lparr>opt_expiryMinutes = JNum 60\<rparr>
       = (Inr \<lparr>r_downloadUrl = ''https://signed.example/documents/file.pdf'',
              r_isPublic = False, r_requiresSAS = True, r_expiresIn = JNum 3600,
              r_expiresAt = Some ''2026-01-01T00:00:00.000Z'', r_fileName = ''file.pdf''\<rparr>,
          [HeadObjectCommand (Some ''files'') ''documents/file.pdf'',
           GetObjectAclCommand (Some ''files'') ''documents/file.pdf'',
           GetBucketAclCommand (Some ''files''),
           GetSignedUrl (Some ''files'') ''documents/file.pdf'' (JNum 3600)])"
    by (simp add: eval_defs)
  have e': "az_generateDownloadUrl demoRuntime (fakeStore True False) (JNum 1000) (JNum 2000) []
            ''https://account.blob.core.windows.net/documents/a/file.pdf''
            \<lparr>opt_expiryMinutes = JNum 60\<rparr>
       = (Inr \<lparr>r_downloadUrl = ''https://account.blob.core.windows.net/documents/a/file.pdf?sig=abc'',
                r_isPublic = False, r_requiresSAS = True, r_expiresIn = JNum 3600,
                r_expiresAt = Some ''2026-01-01T00:00:00.000Z'', r_fileName = ''file.pdf''\<rparr>,
          [BlobExists (Some ''documents'') ''a/file.pdf'',
           ContainerGetProperties (Some ''documents''),
           GenerateBlobSAS (Some ''documents'') ''a/file.pdf'' (JNum (- 299000)) (JNum 3602000)])"
    by (simp add: eval_defs)
  have s3: "s3_generateDownloadUrl demoRuntime (fakeStore True False) ''ap-south-1'' 1000 []
            ''https://files.s3.ap-south-1.amazonaws.com/documents/file.pdf''
            \<lparr>opt_expiryMinutes = JNum 0\<rparr>
          = s3_generateDownloadUrl demoRuntime (fakeStore True False) ''ap-south-1'' 1000 []
            ''https://files.s3.ap-south-1.amazonaws.com/documents/file.pdf''
            \<lparr>opt_expiryMinutes = JNum 60\<rparr>"
    using falsy_expiry_defaults[OF f, of demoRuntime "fakeStore True False" "''ap-south-1''" 1000
        "[]" "''https://files.s3.ap-south-1.amazonaws.com/documents/file.pdf''" JNull JNull,
        THEN conjunct1]
    by simp
  have az: "az_generateDownloadUrl demoRuntime (fakeStore True False) (JNum 1000) (JNum 2000) []
            ''https://account.blob.core.windows.net/documents/a/file.pdf''
            \<lparr>opt_expiryMinutes = JStr []\<rparr>
          = az_generateDownloadUrl demoRuntime (fakeStore True False) (JNum 1000) (JNum 2000) []
            ''https://account.blob.core.windows.net/documents/a/file.pdf''
            \<lparr>opt_expiryMinutes = JNum 60\<rparr>"
    using falsy_expiry_defaults[OF g, of demoRuntime "fakeStore True False" "[]" 0 "[]"
        "''https://account.blob.core.windows.net/documents/a/file.pdf''" "JNum 1000" "JNum 2000",
        THEN conjunct2, THEN conjunct1]
    by simp
  show ?thesis unfolding s3 az e e' by simp
qed

text \<open>
  C7 (as amended). When the key is empty or absent, the S3 adapter's
  \<open>deleteFileByBucketKey\<close> deletes, in the bucket configured for the platform, the
  object whose key is the container name alone. The Azure adapter has no such default:
  it hands the key to the SDK as it received it.
\<close>

theorem delete_by_key_without_key:
  assumes "\<not> present key"
  shows "(\<forall>md cfg. metadata = Some md
            \<and> getPlatformConfig (platforms penv) (String_js (getProp md ''platformId''))
                 (String_js (getProp md ''environment'')) = Inr cfg
          \<longrightarrow> snd (s3_deleteFileByBucketKey penv k t bucket key metadata)
                = t @ [DeleteObjectCommand (cfg_bucketName cfg) bucket])
       \<and> snd (az_deleteFileByBucketKey k t container key metadata)
           = t @ [BlobDelete (Some container) key]"
  using assms
  by (auto simp: s3_deleteFileByBucketKey_def az_deleteFileByBucketKey_def perform_def Let_def
      split: sum.splits prod.splits option.splits)

theorem delete_by_key_without_key_witness:
  "\<not> present (Some [])
   \<and> snd (s3_deleteFileByBucketKey demoEnv (fakeStore True False) [] ''documents'' (Some [])
          (Some [''platformId'' \<mapsto> JStr ''onedigital'', ''environment'' \<mapsto> JStr ''prod'']))
       = [DeleteObjectCommand (Some ''onedigital-files'') ''documents'']
   \<and> snd (az_deleteFileByBucketKey (fakeStore True False) [] ''documents'' (Some [])
          (Some [''platformId'' \<mapsto> JStr ''onedigital'', ''environment'' \<mapsto> JStr ''prod'']))
       = [BlobDelete (Some ''documents'') (Some [])]"
proof -
  let ?md = "[''platformId'' \<mapsto> JStr ''onedigital'', ''environment'' \<mapsto> JStr ''prod'']"
  have f: "\<not> present (Some [])" by (simp add: present_def)
  have "\<exists>cfg. getPlatformConfig (platforms demoEnv) (String_js (getProp ?md ''platformId''))
               (String_js (getProp ?md ''environment'')) = Inr cfg
             \<and> cfg_bucketName cfg = Some ''onedigital-files''"
    by (simp add: getProp_def getPlatformConfig_def platforms_def s3Environment_def
        azureEnvironment_def withPlatformName_def demoEnv_def env_config.extend_def
        platform_config.fields_def)
  then obtain cfg where
    c: "getPlatformConfig (platforms demoEnv) (String_js (getProp ?md ''platformId''))
          (String_js (getProp ?md ''environment'')) = Inr cfg"
    and b: "cfg_bucketName cfg = Some ''onedigital-files''" by blast
  from delete_by_key_without_key[OF f, of "Some ?md" demoEnv "fakeStore True False" "[]"
      "''documents''" "''documents''"] c b
  show ?thesis using f by simp
qed

text \<open>
  C7 as stated fails for the Azure adapter: with no key, the request names no blob,
  and not the blob called like the container.
\<close>

theorem azure_delete_without_key:
  "snd (az_deleteFileByBucketKey (fakeStore True False) [] ''documents'' None None)
     = [BlobDelete (Some ''documents'') None]
   \<and> snd (az_deleteFileByBucketKey (fakeStore True False) [] ''documents'' None None)
     \<noteq> [BlobDelete (Some ''documents'') (Some ''documents'')]"
  by (simp add: az_deleteFileByBucketKey_def perform_def fakeStore_def plainReply_def)

lemma s3_parseUrl_error:
  "s3_parseUrl rt region u = Inl e \<Longrightarrow> e_name e = ''Error'' \<and> e_code e = None"
  by (auto simp: s3_parseUrl_def Error_def Let_def split: sum.splits prod.splits if_splits)

lemma az_parseUrl_error:
  "az_parseUrl rt u = Inl e \<Longrightarrow> \<exists>m. e = Error (''Failed to parse Azure URL: '' @ m)"
  by (auto simp: az_parseUrl_def Let_def split: sum.splits)

lemma s3_fileExists_issued:
  "\<not> list_ex isSigning (issued t (snd (s3_fileExists rt k region t u)))"
  by (auto simp: s3_fileExists_def perform_def issued_def split: sum.splits prod.splits)

lemma az_fileExists_issued:
  "\<not> list_ex isSigning (issued t (snd (az_fileExists rt k t u)))"
  by (auto simp: az_fileExists_def perform_def issued_def split: sum.splits prod.splits)

lemma s3_generate_absent:
  assumes "s3_fileExists rt k region t u = (Inr False, t1)"
  shows "s3_generateDownloadUrl rt k region now t u options
         = (Inl (Error ''S3 download URL generation failed: File not found''), t1)"
proof (cases "s3_parseUrl rt region u")
  case (Inl e)
  then have "s3_fileExists rt k region t u = (Inl e, t)"
    using s3_parseUrl_error[OF Inl] by (simp add: s3_fileExists_def)
  with assms show ?thesis by simp
next
  case (Inr parsed)
  then show ?thesis
    using assms by (simp add: s3_generateDownloadUrl_def Error_def)
qed

lemma az_generate_absent:
  assumes "az_fileExists rt k t u = (False, t1)"
  shows "az_generateDownloadUrl rt k c1 c2 t u options
           = (Inl (Error ''Azure SAS generation failed: File not found''), t1)
         \<or> (\<exists>m. az_generateDownloadUrl rt k c1 c2 t u options
           = (Inl (Error (''Azure SAS generation failed: Failed to parse Azure URL: '' @ m)), t1))"
proof (cases "az_parseUrl rt u")
  case (Inl e)
  then obtain m where m: "e = Error (''Failed to parse Azure URL: '' @ m)"
    using az_parseUrl_error by blast
  have "t1 = t" using assms Inl by (simp add: az_fileExists_def)
  then show ?thesis
    using Inl m by (simp add: az_generateDownloadUrl_def Error_def)
next
  case (Inr parsed)
  then show ?thesis
    using assms by (simp add: az_generateDownloadUrl_def Error_def)
qed

lemma s3_generate_signing:
  assumes "list_ex isSigning (issued t (snd (s3_generateDownloadUrl rt k region now t u options)))"
  shows "\<exists>t1. s3_fileExists rt k region t u = (Inr True, t1)"
proof (cases "s3_fileExists rt k region t u")
  case (Pair r t1)
  have ext: "\<not> list_ex isSigning (issued t t1)"
    using s3_fileExists_issued[of t rt k region u] Pair by simp
  show ?thesis
  proof (cases r)
    case (Inl e)
    with Pair assms ext show ?thesis
      by (auto simp: s3_generateDownloadUrl_def issued_self split: sum.splits)
  next
    case (Inr b)
    show ?thesis
    proof (cases b)
      case True
      with Inr Pair show ?thesis by simp
    next
      case False
      with Inr Pair assms ext s3_generate_absent[of rt k region t u t1 now options]
      show ?thesis by simp
    qed
  qed
qed

lemma az_generate_signing:
  assumes "list_ex isSigning (issued t (snd (az_generateDownloadUrl rt k c1 c2 t u options)))"
  shows "\<exists>t1. az_fileExists rt k t u = (True, t1)"
proof (cases "az_fileExists rt k t u")
  case (Pair b t1)
  have ext: "\<not> list_ex isSigning (issued t t1)"
    using az_fileExists_issued[of t rt k u] Pair by simp
  show ?thesis
  proof (cases b)
    case True
    with Pair show ?thesis by simp
  next
    case False
    with Pair assms ext az_generate_absent[of rt k t u t1 c1 c2 options]
    show ?thesis by auto
  qed
qed

lemma s3_generate_first:
  "issued t (snd (s3_generateDownloadUrl rt k region now t u options)) = []
   \<or> (\<exists>b key. hd (issued t (snd (s3_generateDownloadUrl rt k region now t u options)))
                = HeadObjectCommand b key)"
  by (auto simp: s3_generateDownloadUrl_def s3_fileExists_def s3_isObjectPublic_def
      s3_isBucketPublic_def perform_def Let_def issued_def
      split: sum.splits prod.splits if_splits)

lemma az_generate_first:
  "issued t (snd (az_generateDownloadUrl rt k c1 c2 t u options)) = []
   \<or> (\<exists>c b. hd (issued t (snd (az_generateDownloadUrl rt k c1 c2 t u options)))
              = BlobExists c b)"
  by (auto simp: az_generateDownloadUrl_def az_fileExists_def az_isContainerPublic_def
      perform_def Let_def issued_def
      split: sum.splits prod.splits if_splits)

text \<open>
  C5. In both adapters \<open>generateDownloadUrl\<close>, once the address is parsed, asks the store
  for the object before anything else. When \<open>fileExists\<close> reports that the object is
  absent the call fails with \<open>File not found\<close> under the adapter's prefix and no signing
  request is made; a signing request is made only in a call whose \<open>fileExists\<close> returned
  \<open>true\<close>.
\<close>

theorem download_requires_existing_object:
  "(\<forall>t1. s3_fileExists rt k region t u = (Inr False, t1)
          \<longrightarrow> s3_generateDownloadUrl rt k region now t u options
                = (Inl (Error ''S3 download URL generation failed: File not found''), t1)
              \<and> \<not> list_ex isSigning (issued t t1))
   \<and> (list_ex isSigning (issued t (snd (s3_generateDownloadUrl rt k region now t u options)))
        \<longrightarrow> (\<exists>t1. s3_fileExists rt k region t u = (Inr True, t1)))
   \<and> (issued t (snd (s3_generateDownloadUrl rt k region now t u options)) = []
        \<or> (\<exists>b key. hd (issued t (snd (s3_generateDownloadUrl rt k region now t u options)))
                     = HeadObjectCommand b key))
   \<and> (\<forall>t1 parsed. az_parseUrl rt u = Inr parsed \<and> az_fileExists rt k t u = (False, t1)
          \<longrightarrow> az_generateDownloadUrl rt k c1 c2 t u options
                = (Inl (Error ''Azure SAS generation failed: File not found''), t1)
              \<and> \<not> list_ex isSigning (issued t t1))
   \<and> (list_ex isSigning (issued t (snd (az_generateDownloadUrl rt k c1 c2 t u options)))
        \<longrightarrow> (\<exists>t1. az_fileExists rt k t u = (True, t1)))
   \<and> (issued t (snd (az_generateDownloadUrl rt k c1 c2 t u options)) = []
        \<or> (\<exists>c b. hd (issued t (snd (az_generateDownloadUrl rt k c1 c2 t u options)))
                   = BlobExists c b))"
proof -
  have a: "\<forall>t1. s3_fileExists rt k region t u = (Inr False, t1)
          \<longrightarrow> s3_generateDownloadUrl rt k region now t u options
                = (Inl (Error ''S3 download URL generation failed: File not found''), t1)
              \<and> \<not> list_ex isSigning (issued t t1)"
    using s3_generate_absent[of rt k region t u _ now options]
      s3_fileExists_issued[of t rt k region u] by auto
  have b: "\<forall>t1 parsed. az_parseUrl rt u = Inr parsed \<and> az_fileExists rt k t u = (False, t1)
          \<longrightarrow> az_generateDownloadUrl rt k c1 c2 t u options
                = (Inl (Error ''Azure SAS generation failed: File not found''), t1)
              \<and> \<not> list_ex isSigning (issued t t1)"
    using az_fileExists_issued[of t rt k u]
    by (auto simp: az_generateDownloadUrl_def Error_def)
  show ?thesis
    using a b s3_generate_signing[of t rt k region now u options]
      az_generate_signing[of t rt k c1 c2 u options]
      s3_generate_first[of t rt k region now u options]
      az_generate_first[of t rt k c1 c2 u options]
    by blast
qed

theorem download_requires_existing_object_witness:
  "s3_fileExists demoRuntime (fakeStore False False) ''ap-south-1'' []
     ''https://files.s3.ap-south-1.amazonaws.com/documents/gone.pdf''
     = (Inr False, [HeadObjectCommand (Some ''files'') ''documents/gone.pdf''])
   \<and> s3_generateDownloadUrl demoRuntime (fakeStore False False) ''ap-south-1'' 1000 []
       ''https://files.s3.ap-south-1.amazonaws.com/documents/gone.pdf''
       \<lparr>opt_expiryMinutes = JNum 5\<rparr>
     = (Inl (Error ''S3 download URL generation failed: File not found''),
        [HeadObjectCommand (Some ''files'') ''documents/gone.pdf''])
   \<and> az_fileExists demoRuntime (fakeStore False False) []
       ''https://account.blob.core.windows.net/documents/gone.pdf''
     = (False, [BlobExists (Some ''documents'') ''gone.pdf''])
   \<and> az_generateDownloadUrl demoRuntime (fakeStore False False) (JNum 0) (JNum 0) []
       ''https://account.blob.core.windows.net/documents/gone.pdf''
       \<lparr>opt_expiryMinutes = JNum 5\<rparr>
     = (Inl (Error ''Azure SAS generation failed: File not found''),
        [BlobExists (Some ''documents'') ''gone.pdf''])
   \<and> list_ex isSigning (issued [] (snd (s3_generateDownloadUrl demoRuntime (fakeStore True False)
         ''ap-south-1'' 1000 [] ''https://files.s3.ap-south-1.amazonaws.com/documents/file.pdf''
         \<lparr>opt_expiryMinutes = JNum 5\<rparr>)))
   \<and> fst (s3_fileExists demoRuntime (fakeStore True False) ''ap-south-1'' []
         ''https://files.s3.ap-south-1.amazonaws.com/documents/file.pdf'') = Inr True"
proof -
  let ?u = "''https://files.s3.ap-south-1.amazonaws.com/documents/gone.pdf''"
  let ?v = "''https://account.blob.core.windows.net/documents/gone.pdf''"
  let ?w = "''https://files.s3.ap-south-1.amazonaws.com/documents/file.pdf''"
  have e1: "s3_fileExists demoRuntime (fakeStore False False) ''ap-south-1'' [] ?u
     = (Inr False, [HeadObjectCommand (Some ''files'') ''documents/gone.pdf''])"
    by (simp add: eval_defs)
  have e2: "az_fileExists demoRuntime (fakeStore False False) [] ?v
     = (False, [BlobExists (Some ''documents'') ''gone.pdf''])"
    by (simp add: eval_defs)
  have e3: "\<exists>parsed. az_parseUrl demoRuntime ?v = Inr parsed"
    by (simp add: eval_defs)
  have e4: "list_ex isSigning (issued [] (snd (s3_generateDownloadUrl demoRuntime
         (fakeStore True False) ''ap-south-1'' 1000 [] ?w \<lparr>opt_expiryMinutes = JNum 5\<rparr>)))"
    by (simp add: eval_defs)
  note t1 = download_requires_existing_object[of demoRuntime "fakeStore False False"
      "''ap-south-1''" "[]" ?u 1000 "\<lparr>opt_expiryMinutes = JNum 5\<rparr>" "JNum 0" "JNum 0"]
  note t2 = download_requires_existing_object[of demoRuntime "fakeStore True False"
      "''ap-south-1''" "[]" ?w 1000 "\<lparr>opt_expiryMinutes = JNum 5\<rparr>" "JNum 0" "JNum 0"]
  note t3 = download_requires_existing_object[of demoRuntime "fakeStore False False"
      "''ap-south-1''" "[]" ?v 1000 "\<lparr>opt_expiryMinutes = JNum 5\<rparr>" "JNum 0" "JNum 0"]
  have g1: "s3_generateDownloadUrl demoRuntime (fakeStore False False) ''ap-south-1'' 1000 [] ?u
       \<lparr>opt_expiryMinutes = JNum 5\<rparr>
     = (Inl (Error ''S3 download URL generation failed: File not found''),
        [HeadObjectCommand (Some ''files'') ''documents/gone.pdf''])"
    using t1[THEN conjunct1] e1 by blast
  have g2: "az_generateDownloadUrl demoRuntime (fakeStore False False) (JNum 0) (JNum 0) [] ?v
       \<lparr>opt_expiryMinutes = JNum 5\<rparr>
     = (Inl (Error ''Azure SAS generation failed: File not found''),
        [BlobExists (Some ''documents'') ''gone.pdf''])"
    using t3[THEN conjunct2, THEN conjunct2, THEN conjunct2, THEN conjunct1] e2 e3 by blast
  have g3: "fst (s3_fileExists demoRuntime (fakeStore True False) ''ap-south-1'' [] ?w) = Inr True"
    using t2[THEN conjunct2, THEN conjunct1] e4 by auto
  show ?thesis using e1 e2 e4 g1 g2 g3 by blast
qed

lemmas upload_defs =
  s3_uploadFile_def s3_ensureBucketExists_def az_uploadFile_def az_prepareContainer_def
  az_isContainerPublic_def getPlatformConfig_def platforms_def s3Environment_def
  azureEnvironment_def withPlatformName_def orDefault_def demoEnv_def getProp_def
  env_config.extend_def platform_config.fields_def perform_def fakeStore_def plainReply_def
  aclReply_def tmpl_def present_def Error_def Let_def s3_objectUrl_def

lemma s3_ensure_trace:
  "snd (s3_ensureBucketExists k t b x) = t @ [HeadBucketCommand b]"
  by (simp add: s3_ensureBucketExists_def perform_def split: sum.splits prod.splits)

text \<open>
  What the S3 adapter sends: every value of the caller's map in its string form, under
  the stamps \<open>uploadedAt\<close>, \<open>provider\<close> and \<open>access\<close>.
\<close>

lemma s3_upload_metadata:
  assumes "c \<in> set (issued t (snd (s3_uploadFile penv k region nowIso t bucket fileData prefix
                                      fileName metadata access)))"
    and "isWrite c"
  shows "sentMetadata c =
           (map_option JStr \<circ> (map_option String_js \<circ> metadata))
             (''uploadedAt'' \<mapsto> JStr nowIso, ''provider'' \<mapsto> JStr ''s3'',
              ''access'' \<mapsto> JStr access)"
proof (cases "getPlatformConfig (platforms penv) (String_js (getProp metadata ''platformId''))
                (String_js (getProp metadata ''environment''))")
  case (Inl e)
  with assms show ?thesis by (simp add: s3_uploadFile_def issued_def)
next
  case (Inr cfg)
  obtain r t1 where e: "s3_ensureBucketExists k t (cfg_bucketName cfg) None = (r, t1)"
    by (cases "s3_ensureBucketExists k t (cfg_bucketName cfg) None")
  then have t1: "t1 = t @ [HeadBucketCommand (cfg_bucketName cfg)]"
    using s3_ensure_trace[of k t "cfg_bucketName cfg" None] by simp
  show ?thesis
  proof (cases r)
    case (Inl e')
    with assms Inr e t1 show ?thesis by (auto simp: s3_uploadFile_def issued_def)
  next
    case (Inr u)
    with assms \<open>getPlatformConfig _ _ _ = Inr cfg\<close> e t1 show ?thesis
      by (auto simp: s3_uploadFile_def issued_def perform_def Let_def
          split: sum.splits prod.splits)
  qed
qed

lemma az_isContainerPublic_trace:
  "snd (az_isContainerPublic k t c) = t @ [ContainerGetProperties c]"
  by (simp add: az_isContainerPublic_def perform_def split: sum.splits prod.splits)

lemma az_prepare_trace:
  "\<exists>xs. snd (az_prepareContainer k t bucket access) = t @ xs
        \<and> (\<forall>c\<in>set xs. sentMetadata c = Map.empty)"
proof (cases "respond k t (ContainerExists (Some bucket))")
  case (Inl e)
  then show ?thesis by (simp add: az_prepareContainer_def perform_def)
next
  case (Inr r)
  show ?thesis
  proof (cases "asBoolean r")
    case True
    obtain b t2 where p: "az_isContainerPublic k (t @ [ContainerExists (Some bucket)])
                            (Some bucket) = (b, t2)"
      by (cases "az_isContainerPublic k (t @ [ContainerExists (Some bucket)]) (Some bucket)")
    then have "t2 = t @ [ContainerExists (Some bucket), ContainerGetProperties (Some bucket)]"
      using az_isContainerPublic_trace[of k "t @ [ContainerExists (Some bucket)]" "Some bucket"]
      by simp
    with Inr True p show ?thesis
      by (auto simp: az_prepareContainer_def perform_def Let_def)
  next
    case False
    with Inr show ?thesis
      by (auto simp: az_prepareContainer_def perform_def split: sum.splits)
  qed
qed

text \<open>What the Azure adapter sends: its two stamps, overridden by the caller's map as it is.\<close>

lemma az_upload_metadata:
  assumes "c \<in> set (issued t (snd (az_uploadFile k nowIso t bucket fileData prefix fileName
                                      metadata access)))"
    and "sentMetadata c \<noteq> Map.empty"
  shows "sentMetadata c =
           [''uploadedAt'' \<mapsto> JStr nowIso, ''provider'' \<mapsto> JStr ''azure''] ++ metadata"
proof -
  obtain r t1 where e: "az_prepareContainer k t bucket access = (r, t1)"
    by (cases "az_prepareContainer k t bucket access")
  then obtain xs where xs: "t1 = t @ xs" "\<forall>c\<in>set xs. sentMetadata c = Map.empty"
    using az_prepare_trace[of k t bucket access] by auto
  show ?thesis
  proof (cases r)
    case (Inl e')
    with assms e xs show ?thesis by (auto simp: az_uploadFile_def issued_def)
  next
    case (Inr u)
    with assms e xs show ?thesis
      by (auto simp: az_uploadFile_def issued_def perform_def Let_def
          split: sum.splits prod.splits)
  qed
qed

text \<open>
  C2. The claim holds for the S3 adapter and fails for the Azure adapter, which sends
  the caller's values unconverted: the number \<open>42\<close> reaches the Azure SDK as a Number
  and the S3 SDK as the string \<open>"42"\<close>.
\<close>

theorem azure_upload_keeps_number:
  "sentMetadata (last (snd (az_uploadFile (fakeStore True False) ''2026-01-01T00:00:00.000Z'' []
       ''documents'' ''hello'' None ''f.txt'' [''count'' \<mapsto> JNum 42] ''private'')))
     ''count'' = Some (JNum 42)
   \<and> String_js (JNum 42) = ''42''
   \<and> sentMetadata (last (snd (s3_uploadFile demoEnv (fakeStore True False) ''ap-south-1''
       ''2026-01-01T00:00:00.000Z'' [] ''documents'' ''hello'' None ''f.txt''
       [''platformId'' \<mapsto> JStr ''onedigital'', ''environment'' \<mapsto> JStr ''prod'',
        ''count'' \<mapsto> JNum 42] ''private'')))
     ''count'' = Some (JStr ''42'')"
  by (simp add: upload_defs decimal.simps)

lemmas service_defs =
  uploadFile_def getStorageProvider_def createProvider_def newAzureStorageProvider_def
  newAWSS3StorageProvider_def extractAccountName_def extractAccountKey_def newService_def
  cacheKey_def enrichMetadata_def toLowerCase_def toLowerChar_def

text \<open>
  The S3 adapter writes its stamps after it has copied the caller's map, so they win
  there; the enrichment of the routing layer lets the caller's map win over
  \<open>platformId\<close>, \<open>environment\<close> and \<open>provider\<close>.
\<close>

lemma s3_upload_stamps:
  assumes "c \<in> set (issued t (snd (s3_uploadFile penv k region nowIso t bucket fileData prefix
                                      fileName metadata access)))"
    and "isWrite c"
  shows "sentMetadata c ''uploadedAt'' = Some (JStr nowIso)
         \<and> sentMetadata c ''provider'' = Some (JStr ''s3'')"
  using s3_upload_metadata[OF assms] by simp

lemma enrichMetadata_caller:
  "enrichMetadata platformId environment p metadata key
   = (case metadata key of
        Some v \<Rightarrow> Some v
      | None \<Rightarrow> [''platformId'' \<mapsto> JStr platformId, ''environment'' \<mapsto> JStr environment,
                 ''provider'' \<mapsto> JStr (getProviderName p)] key)"
  by (simp add: enrichMetadata_def map_add_def split: option.splits)

text \<open>
  C3. The claim holds for the S3 adapter and fails for the Azure adapter, which spreads
  the caller's map after its own stamps: through the routing layer, a caller's
  \<open>provider\<close> and \<open>uploadedAt\<close> reach the Azure SDK in place of the stamps, and reach
  the S3 SDK replaced by them.
\<close>

theorem azure_caller_overrides_stamps:
  "sentMetadata (last (snd (snd (uploadFile demoEnv (fakeStore True False)
       ''2026-01-01T00:00:00.000Z'' newService [] ''onedigital'' ''uat'' ''documents'' None
       ''private'' ''hello'' ''f.txt''
       [''provider'' \<mapsto> JStr ''evil'', ''uploadedAt'' \<mapsto> JStr ''1999'']))))
     ''provider'' = Some (JStr ''evil'')
   \<and> sentMetadata (last (snd (snd (uploadFile demoEnv (fakeStore True False)
       ''2026-01-01T00:00:00.000Z'' newService [] ''onedigital'' ''uat'' ''documents'' None
       ''private'' ''hello'' ''f.txt''
       [''provider'' \<mapsto> JStr ''evil'', ''uploadedAt'' \<mapsto> JStr ''1999'']))))
     ''uploadedAt'' = Some (JStr ''1999'')
   \<and> sentMetadata (last (snd (snd (uploadFile demoEnv (fakeStore True False)
       ''2026-01-01T00:00:00.000Z'' newService [] ''onedigital'' ''prod'' ''documents'' None
       ''private'' ''hello'' ''f.txt''
       [''provider'' \<mapsto> JStr ''evil'', ''uploadedAt'' \<mapsto> JStr ''1999'']))))
     ''provider'' = Some (JStr ''s3'')
   \<and> sentMetadata (last (snd (snd (uploadFile demoEnv (fakeStore True False)
       ''2026-01-01T00:00:00.000Z'' newService [] ''onedigital'' ''prod'' ''documents'' None
       ''private'' ''hello'' ''f.txt''
       [''provider'' \<mapsto> JStr ''evil'', ''uploadedAt'' \<mapsto> JStr ''1999'']))))
     ''uploadedAt'' = Some (JStr ''2026-01-01T00:00:00.000Z'')"
proof -
  let ?md = "[''provider'' \<mapsto> JStr ''evil'', ''uploadedAt'' \<mapsto> JStr ''1999'']"
  have az: "fst (getStorageProvider demoEnv (fakeStore True False) newService
                   ''onedigital'' ''uat'')
            = Inr (AzureStorageProvider 0
                     (withPlatformName ''OneDigital'' (azureEnvironment demoEnv ''ONEDIGITAL_UAT''))
                     ''account'' ''a2V5'')"
    by (simp add: service_defs upload_defs)
  have s3: "fst (getStorageProvider demoEnv (fakeStore True False) newService
                   ''onedigital'' ''prod'')
            = Inr (AWSS3StorageProvider 0
                     (withPlatformName ''OneDigital''
                        (s3Environment demoEnv ''ONEDIGITAL_PROD'' ''ap-south-1''
                           (demoEnv ''ONEDIGITAL_PROD_BUCKET_NAME'')))
                     ''ap-south-1'')"
    by (simp add: service_defs upload_defs)
  have a: "snd (snd (uploadFile demoEnv (fakeStore True False) ''2026-01-01T00:00:00.000Z''
              newService [] ''onedigital'' ''uat'' ''documents'' None ''private'' ''hello''
              ''f.txt'' ?md))
           = snd (az_uploadFile (fakeStore True False) ''2026-01-01T00:00:00.000Z'' []
                    ''documents'' ''hello'' None ''f.txt''
                    (enrichMetadata ''onedigital'' ''uat''
                       (AzureStorageProvider 0
                          (withPlatformName ''OneDigital''
                             (azureEnvironment demoEnv ''ONEDIGITAL_UAT''))
                          ''account'' ''a2V5'') ?md)
                    ''private'')"
    using az
    by (cases "getStorageProvider demoEnv (fakeStore True False) newService
                 ''onedigital'' ''uat''")
       (simp add: uploadFile_def split: sum.splits prod.splits)
  have b: "snd (snd (uploadFile demoEnv (fakeStore True False) ''2026-01-01T00:00:00.000Z''
              newService [] ''onedigital'' ''prod'' ''documents'' None ''private'' ''hello''
              ''f.txt'' ?md))
           = snd (s3_uploadFile demoEnv (fakeStore True False) ''ap-south-1''
                    ''2026-01-01T00:00:00.000Z'' [] ''documents'' ''hello'' None ''f.txt''
                    (enrichMetadata ''onedigital'' ''prod''
                       (AWSS3StorageProvider 0
                          (withPlatformName ''OneDigital''
                             (s3Environment demoEnv ''ONEDIGITAL_PROD'' ''ap-south-1''
                                (demoEnv ''ONEDIGITAL_PROD_BUCKET_NAME'')))
                          ''ap-south-1'') ?md)
                    ''private'')"
    using s3
    by (cases "getStorageProvider demoEnv (fakeStore True False) newService
                 ''onedigital'' ''prod''")
       (simp add: uploadFile_def split: sum.splits prod.splits)
  show ?thesis
    unfolding a b by (simp add: upload_defs enrichMetadata_def)
qed

lemma s3_upload_requests:
  "issued t (snd (s3_uploadFile penv k region nowIso t bucket fileData prefix fileName
                    metadata access)) = []
   \<or> (\<exists>b. issued t (snd (s3_uploadFile penv k region nowIso t bucket fileData prefix fileName
                           metadata access)) = [HeadBucketCommand b])
   \<or> (\<exists>b key md acl.
         issued t (snd (s3_uploadFile penv k region nowIso t bucket fileData prefix fileName
                          metadata access))
         = [HeadBucketCommand b, PutObjectCommand b key fileData md acl])"
proof (cases "getPlatformConfig (platforms penv) (String_js (getProp metadata ''platformId''))
                (String_js (getProp metadata ''environment''))")
  case (Inl e)
  then show ?thesis by (simp add: s3_uploadFile_def issued_def)
next
  case (Inr cfg)
  obtain r t1 where e: "s3_ensureBucketExists k t (cfg_bucketName cfg) None = (r, t1)"
    by (cases "s3_ensureBucketExists k t (cfg_bucketName cfg) None")
  then have t1: "t1 = t @ [HeadBucketCommand (cfg_bucketName cfg)]"
    using s3_ensure_trace[of k t "cfg_bucketName cfg" None] by simp
  show ?thesis
  proof (cases r)
    case (Inl e')
    with Inr e t1 show ?thesis by (simp add: s3_uploadFile_def issued_def)
  next
    case (Inr u)
    with \<open>getPlatformConfig _ _ _ = Inr cfg\<close> e t1 show ?thesis
      by (auto simp: s3_uploadFile_def issued_def perform_def Let_def
          split: sum.splits prod.splits)
  qed
qed

lemma az_upload_mismatch:
  assumes "respond k t (ContainerExists (Some bucket)) = Inr r1" "asBoolean r1"
    and "respond k (t @ [ContainerExists (Some bucket)]) (ContainerGetProperties (Some bucket))
         = Inr r2"
    and "access = ''public'' \<or> access = ''private''"
    and "(blobPublicAccess r2 = Some ''blob'' \<or> blobPublicAccess r2 = Some ''container'')
         \<noteq> (access = ''public'')"
  shows "az_uploadFile k nowIso t bucket fileData prefix fileName metadata access
         = (Inl (Error (''Azure upload failed: Container '' @ bucket
                        @ '' access mismatch: currently ''
                        @ (if access = ''public'' then ''private'' else ''public'')
                        @ '', requested '' @ access)),
            t @ [ContainerExists (Some bucket), ContainerGetProperties (Some bucket)])"
proof -
  have p: "az_isContainerPublic k (t @ [ContainerExists (Some bucket)]) (Some bucket)
           = (blobPublicAccess r2 = Some ''blob'' \<or> blobPublicAccess r2 = Some ''container'',
              t @ [ContainerExists (Some bucket), ContainerGetProperties (Some bucket)])"
    using assms(3) by (simp add: az_isContainerPublic_def perform_def)
  have "az_prepareContainer k t bucket access
        = (Inl (Error (''Container '' @ bucket @ '' access mismatch: currently ''
                       @ (if access = ''public'' then ''private'' else ''public'')
                       @ '', requested '' @ access)),
           t @ [ContainerExists (Some bucket), ContainerGetProperties (Some bucket)])"
    using assms(1,2,4,5) p by (auto simp: az_prepareContainer_def perform_def Let_def)
  then show ?thesis by (simp add: az_uploadFile_def Error_def)
qed

text \<open>
  C4 (as amended). In the Azure adapter, an upload that asks for \<open>public\<close> or \<open>private\<close>
  access to a container that exists and reports the other access level fails with the
  access-mismatch error, after the two requests that read the container and with no
  request that writes. The S3 adapter makes no such comparison: an upload asks whether
  the bucket exists and then puts the object, and never reads an access level.
\<close>

theorem upload_access_mismatch:
  assumes "respond k t (ContainerExists (Some bucket)) = Inr r1" "asBoolean r1"
    and "respond k (t @ [ContainerExists (Some bucket)]) (ContainerGetProperties (Some bucket))
         = Inr r2"
    and "access = ''public'' \<or> access = ''private''"
    and "(blobPublicAccess r2 = Some ''blob'' \<or> blobPublicAccess r2 = Some ''container'')
         \<noteq> (access = ''public'')"
  shows "az_uploadFile k nowIso t bucket fileData prefix fileName metadata access
         = (Inl (Error (''Azure upload failed: Container '' @ bucket
                        @ '' access mismatch: currently ''
                        @ (if access = ''public'' then ''private'' else ''public'')
                        @ '', requested '' @ access)),
            t @ [ContainerExists (Some bucket), ContainerGetProperties (Some bucket)])
       \<and> \<not> list_ex isWrite (issued t (snd (az_uploadFile k nowIso t bucket fileData prefix
                                              fileName metadata access)))
       \<and> (issued t (snd (s3_uploadFile penv k region nowIso t bucket fileData prefix fileName
                            metadata access)) = []
          \<or> (\<exists>b. issued t (snd (s3_uploadFile penv k region nowIso t bucket fileData prefix
                                   fileName metadata access)) = [HeadBucketCommand b])
          \<or> (\<exists>b key md acl.
                 issued t (snd (s3_uploadFile penv k region nowIso t bucket fileData prefix
                                  fileName metadata access))
                 = [HeadBucketCommand b, PutObjectCommand b key fileData md acl]))"
proof -
  note m = az_upload_mismatch[OF assms, of nowIso fileData prefix fileName metadata]
  have "\<not> list_ex isWrite (issued t (snd (az_uploadFile k nowIso t bucket fileData prefix
                                            fileName metadata access)))"
    unfolding m by (simp add: issued_def)
  with m s3_upload_requests[of t penv k region nowIso bucket fileData prefix fileName metadata
      access]
  show ?thesis by blast
qed

theorem upload_access_mismatch_witness:
  "az_uploadFile (fakeStore True True) ''2026-01-01T00:00:00.000Z'' [] ''documents'' ''hello''
     None ''f.txt'' Map.empty ''private''
   = (Inl (Error ''Azure upload failed: Container documents access mismatch: currently public, requested private''),
      [ContainerExists (Some ''documents''), ContainerGetProperties (Some ''documents'')])
   \<and> az_uploadFile (fakeStore True False) ''2026-01-01T00:00:00.000Z'' [] ''documents'' ''hello''
     None ''f.txt'' Map.empty ''public''
   = (Inl (Error ''Azure upload failed: Container documents access mismatch: currently private, requested public''),
      [ContainerExists (Some ''documents''), ContainerGetProperties (Some ''documents'')])"
proof -
  have a: "respond (fakeStore True True) [] (ContainerExists (Some ''documents''))
           = Inr plainReply"
    and a': "respond (fakeStore True False) [] (ContainerExists (Some ''documents''))
           = Inr plainReply"
    and b: "asBoolean plainReply"
    and c: "respond (fakeStore True True) ([] @ [ContainerExists (Some ''documents'')])
              (ContainerGetProperties (Some ''documents''))
            = Inr (plainReply\<lparr>blobPublicAccess := Some ''blob''\<rparr>)"
    and c': "respond (fakeStore True False) ([] @ [ContainerExists (Some ''documents'')])
              (ContainerGetProperties (Some ''documents''))
            = Inr (plainReply\<lparr>blobPublicAccess := None\<rparr>)"
    by (simp_all add: fakeStore_def plainReply_def)
  have d: "''private'' = ''public'' \<or> ''private'' = ''private''"
    and d': "''public'' = ''public'' \<or> ''public'' = ''private''" by simp_all
  have e: "(blobPublicAccess (plainReply\<lparr>blobPublicAccess := Some ''blob''\<rparr>) = Some ''blob''
            \<or> blobPublicAccess (plainReply\<lparr>blobPublicAccess := Some ''blob''\<rparr>) = Some ''container'')
           \<noteq> (''private'' = ''public'')"
    and e': "(blobPublicAccess (plainReply\<lparr>blobPublicAccess := None\<rparr>) = Some ''blob''
            \<or> blobPublicAccess (plainReply\<lparr>blobPublicAccess := None\<rparr>) = Some ''container'')
           \<noteq> (''public'' = ''public'')"
    by simp_all
  from upload_access_mismatch[OF a b c d e, of "''2026-01-01T00:00:00.000Z''" "''hello''" None
      "''f.txt''" Map.empty demoEnv "''ap-south-1''", THEN conjunct1]
    upload_access_mismatch[OF a' b c' d' e', of "''2026-01-01T00:00:00.000Z''" "''hello''" None
      "''f.txt''" Map.empty demoEnv "''ap-south-1''", THEN conjunct1]
  show ?thesis by simp
qed

text \<open>
  C4 as stated fails for the S3 adapter: the bucket exists and is readable by everyone,
  the upload asks for \<open>private\<close>, and the object is written.
\<close>

theorem s3_upload_ignores_bucket_access:
  "fst (s3_isBucketPublic (fakeStore True True) [] (Some ''onedigital-files'')) = Some True
   \<and> fst (s3_uploadFile demoEnv (fakeStore True True) ''ap-south-1'' ''2026-01-01T00:00:00.000Z''
            [] ''documents'' ''hello'' None ''f.txt''
            [''platformId'' \<mapsto> JStr ''onedigital'', ''environment'' \<mapsto> JStr ''prod'']
            ''private'')
       = Inr ''https://onedigital-files.s3.ap-south-1.amazonaws.com/documents/f.txt''
   \<and> list_ex isWrite
         (snd (s3_uploadFile demoEnv (fakeStore True True) ''ap-south-1''
                 ''2026-01-01T00:00:00.000Z'' [] ''documents'' ''hello'' None ''f.txt''
                 [''platformId'' \<mapsto> JStr ''onedigital'', ''environment'' \<mapsto> JStr ''prod'']
                 ''private''))"
  by (simp add: upload_defs s3_isBucketPublic_def isPublicGrant_def)

text \<open>
  C6. The claim fails on the code, in both adapters. The S3 \<open>parseUrl\<close> takes the part
  of the host name before the first dot as the bucket: when the configured bucket is
  \<open>my.bucket\<close>, \<open>uploadFile\<close> returns an address from which \<open>parseUrl\<close> reads the bucket
  \<open>my\<close>, while the path-style branch of the same method reads \<open>my.bucket\<close>. The Azure
  \<open>parseUrl\<close> drops empty path segments: \<open>uploadFile\<close> with prefix \<open>a/\<close> stores the blob
  \<open>a//f.txt\<close> and returns an address from which \<open>parseUrl\<close> reads the blob \<open>a/f.txt\<close>.
\<close>

theorem parse_does_not_invert_address:
  "fst (s3_uploadFile (demoEnv(''ONEDIGITAL_PROD_BUCKET_NAME'' \<mapsto> ''my.bucket''))
          (fakeStore True False) ''ap-south-1'' ''2026-01-01T00:00:00.000Z'' [] ''documents''
          ''hello'' None ''f.txt''
          [''platformId'' \<mapsto> JStr ''onedigital'', ''environment'' \<mapsto> JStr ''prod'']
          ''private'')
     = Inr ''https://my.bucket.s3.ap-south-1.amazonaws.com/documents/f.txt''
   \<and> s3_parseUrl demoRuntime ''ap-south-1''
       ''https://my.bucket.s3.ap-south-1.amazonaws.com/documents/f.txt''
     = Inr \<lparr>p_bucketName = Some ''my'', p_key = ''documents/f.txt'',
             p_region = ''ap-south-1'',
             p_baseUrl = ''https://my.s3.ap-south-1.amazonaws.com'',
             p_fullPath = ''/documents/f.txt''\<rparr>
   \<and> s3_parseUrl demoRuntime ''ap-south-1''
       ''https://s3.amazonaws.com/my.bucket/documents/f.txt''
     = Inr \<lparr>p_bucketName = Some ''my.bucket'', p_key = ''documents/f.txt'',
             p_region = ''ap-south-1'',
             p_baseUrl = ''https://my.bucket.s3.ap-south-1.amazonaws.com'',
             p_fullPath = ''/documents/f.txt''\<rparr>
   \<and> az_uploadFile (fakeStore True False) ''2026-01-01T00:00:00.000Z'' [] ''documents''
       ''hello'' (Some ''a/'') ''f.txt'' Map.empty ''private''
     = (Inr ''https://account.blob.core.windows.net/documents/a//f.txt'',
        [ContainerExists (Some ''documents''), ContainerGetProperties (Some ''documents''),
         BlobUpload (Some ''documents'') ''a//f.txt'' ''hello'' 5
           [''uploadedAt'' \<mapsto> JStr ''2026-01-01T00:00:00.000Z'',
            ''provider'' \<mapsto> JStr ''azure'']])
   \<and> az_parseUrl demoRuntime ''https://account.blob.core.windows.net/documents/a//f.txt''
     = Inr \<lparr>a_accountName = Some ''account'', a_containerName = Some ''documents'',
             a_blobName = ''a/f.txt'',
             a_baseUrl = ''https://account.blob.core.windows.net'',
             a_fullPath = ''/documents/a/f.txt''\<rparr>"
  by (simp add: eval_defs upload_defs)

lemma cacheKey_injective:
  assumes "CHR ''-'' \<notin> set p0" "CHR ''-'' \<notin> set e0" "cacheKey p e = cacheKey p0 e0"
  shows "p = p0 \<and> e = e0"
proof -
  let ?h = "\<lambda>c. c \<noteq> CHR ''-''"
  from assms(3) have eq: "p @ CHR ''-'' # e = p0 @ CHR ''-'' # e0"
    by (simp add: cacheKey_def)
  have "takeWhile ?h (p0 @ CHR ''-'' # e0) = p0"
    using assms(1) by (induction p0) auto
  moreover have "takeWhile ?h (p @ CHR ''-'' # e) = takeWhile ?h p"
    by (induction p) auto
  ultimately have "p0 = takeWhile ?h p" using eq by simp
  then obtain r where r: "p = p0 @ r"
    by (metis takeWhile_dropWhile_id)
  with eq have tl: "r @ CHR ''-'' # e = CHR ''-'' # e0" by simp
  show ?thesis
  proof (cases r)
    case Nil
    with r tl show ?thesis by simp
  next
    case (Cons c r')
    with tl have "e0 = r' @ CHR ''-'' # e" by simp
    with assms(2) show ?thesis by simp
  qed
qed

lemma registered_plain:
  "registered penv p e \<Longrightarrow> CHR ''-'' \<notin> set p \<and> CHR ''-'' \<notin> set e"
  by (auto simp: registered_def platforms_def split: if_splits option.splits)

lemma createProvider_id: "createProvider k i ty config = Inr a \<Longrightarrow> instanceId a = i"
  by (auto simp: createProvider_def newAzureStorageProvider_def newAWSS3StorageProvider_def
      Let_def split: option.splits sum.splits if_splits)

lemma created_registered:
  assumes "getPlatformConfig (platforms penv) p e = Inr config"
    and "createProvider k i (cfg_provider config) config = Inr a"
  shows "registered penv p e"
proof -
  from assms(2) have ty: "cfg_provider config \<noteq> None"
    by (auto simp: createProvider_def split: option.splits)
  have "cfg_provider (withPlatformName n emptyEnvironment) = None" for n
    by (simp add: withPlatformName_def emptyEnvironment_def env_config.extend_def
        platform_config.fields_def)
  with assms(1) ty show ?thesis
    by (auto simp: getPlatformConfig_def registered_def split: option.splits if_splits)
qed


lemma getStorageProvider_cached:
  "providerCache s (cacheKey p e) = Some a \<Longrightarrow> getStorageProvider penv k s p e = (Inr a, s)"
  by (simp add: getStorageProvider_def)

text \<open>What a call on a pair that is not cached yet does.\<close>

lemma getStorageProvider_miss:
  assumes "providerCache s (cacheKey p e) = None"
  shows "getStorageProvider penv k s p e =
    (case getPlatformConfig (platforms penv) p e of
       Inl err \<Rightarrow> (Inl err, s\<lparr>configLookups := configLookups s @ [(p, e)]\<rparr>)
     | Inr config \<Rightarrow>
         (case createProvider k (length (factoryCalls s)) (cfg_provider config) config of
            Inl err \<Rightarrow> (Inl err, s\<lparr>configLookups := configLookups s @ [(p, e)],
                                    factoryCalls := factoryCalls s @ [(p, e)]\<rparr>)
          | Inr a \<Rightarrow> (Inr a, s\<lparr>configLookups := configLookups s @ [(p, e)],
                                factoryCalls := factoryCalls s @ [(p, e)],
                                providerCache := (providerCache s)(cacheKey p e \<mapsto> a)\<rparr>)))"
  using assms by (simp add: getStorageProvider_def Let_def split: sum.splits)

lemma getStorageProvider_success:
  assumes "getStorageProvider penv k s p e = (Inr a, s1)"
  shows "providerCache s1 (cacheKey p e) = Some a
         \<and> (providerCache s (cacheKey p e) = None \<longrightarrow>
              configLookups s1 = configLookups s @ [(p, e)]
              \<and> factoryCalls s1 = factoryCalls s @ [(p, e)]
              \<and> providerCache s1 = (providerCache s)(cacheKey p e \<mapsto> a)
              \<and> instanceId a = length (factoryCalls s)
              \<and> registered penv p e)
         \<and> (providerCache s (cacheKey p e) \<noteq> None \<longrightarrow> s1 = s)"
proof (cases "providerCache s (cacheKey p e)")
  case None
  from assms show ?thesis
    unfolding getStorageProvider_miss[OF None]
    using None createProvider_id created_registered
    by (auto split: sum.splits)
next
  case (Some b)
  with assms show ?thesis by (simp add: getStorageProvider_cached)
qed

lemma getStorageProvider_keeps:
  assumes "providerCache s key = Some a"
  shows "providerCache (snd (getStorageProvider penv k s p e)) key = Some a"
proof (cases "providerCache s (cacheKey p e)")
  case None
  then have "key \<noteq> cacheKey p e" using assms by auto
  then show ?thesis
    unfolding getStorageProvider_miss[OF None] using assms by (auto split: sum.splits)
next
  case (Some b)
  then show ?thesis using assms by (simp add: getStorageProvider_cached)
qed

lemma getStorageProvider_logs:
  "length (factoryCalls s) \<le> length (factoryCalls (snd (getStorageProvider penv k s p e)))"
proof (cases "providerCache s (cacheKey p e)")
  case None
  show ?thesis unfolding getStorageProvider_miss[OF None] by (auto split: sum.splits)
next
  case (Some b)
  then show ?thesis by (simp add: getStorageProvider_cached)
qed

lemma getStorageProvider_invariant:
  assumes "cacheInvariant penv s"
  shows "cacheInvariant penv (snd (getStorageProvider penv k s p e))"
proof (cases "providerCache s (cacheKey p e)")
  case (Some b)
  then show ?thesis using assms by (simp add: getStorageProvider_cached)
next
  case None
  show ?thesis
  proof (cases "getStorageProvider penv k s p e")
    case (Pair r s1)
    show ?thesis
    proof (cases r)
      case (Inl err)
      with Pair have "providerCache s1 = providerCache s"
        and "length (factoryCalls s) \<le> length (factoryCalls s1)"
        unfolding getStorageProvider_miss[OF None] by (auto split: sum.splits)
      with assms Pair show ?thesis
        unfolding cacheInvariant_def by (simp; meson less_le_trans)
    next
      case (Inr a)
      with Pair have ok: "getStorageProvider penv k s p e = (Inr a, s1)" by simp
      from getStorageProvider_success[OF ok] None
      have c: "providerCache s1 = (providerCache s)(cacheKey p e \<mapsto> a)"
        and f: "factoryCalls s1 = factoryCalls s @ [(p, e)]"
        and i: "instanceId a = length (factoryCalls s)"
        and reg: "registered penv p e" by simp_all
      have "cacheInvariant penv s1"
        unfolding cacheInvariant_def
      proof (intro allI impI)
        fix key b
        assume kb: "providerCache s1 key = Some b"
        show "instanceId b < length (factoryCalls s1)
              \<and> (\<exists>p e. registered penv p e \<and> key = cacheKey p e)
              \<and> (\<forall>key' a'. providerCache s1 key' = Some a' \<and> instanceId a' = instanceId b
                    \<longrightarrow> key' = key)"
        proof (cases "key = cacheKey p e")
          case True
          with kb c have b: "b = a" by simp
          have "\<forall>key' a'. providerCache s1 key' = Some a' \<and> instanceId a' = instanceId a
                  \<longrightarrow> key' = key"
          proof (intro allI impI)
            fix key' a'
            assume h: "providerCache s1 key' = Some a' \<and> instanceId a' = instanceId a"
            show "key' = key"
            proof (rule ccontr)
              assume "key' \<noteq> key"
              with h c True have "providerCache s key' = Some a'" by simp
              with assms have "instanceId a' < length (factoryCalls s)"
                unfolding cacheInvariant_def by blast
              with h i show False by simp
            qed
          qed
          with b True reg i f show ?thesis by auto
        next
          case False
          with kb c have old: "providerCache s key = Some b" by simp
          with assms have o1: "instanceId b < length (factoryCalls s)"
            and o2: "\<exists>p e. registered penv p e \<and> key = cacheKey p e"
            and o3: "\<forall>key' a'. providerCache s key' = Some a' \<and> instanceId a' = instanceId b
                  \<longrightarrow> key' = key"
            unfolding cacheInvariant_def by blast+
          have "\<forall>key' a'. providerCache s1 key' = Some a' \<and> instanceId a' = instanceId b
                  \<longrightarrow> key' = key"
          proof (intro allI impI)
            fix key' a'
            assume h: "providerCache s1 key' = Some a' \<and> instanceId a' = instanceId b"
            show "key' = key"
            proof (cases "key' = cacheKey p e")
              case True
              with h c have "a' = a" by simp
              with h i o1 show ?thesis by simp
            next
              case False
              with h c have "providerCache s key' = Some a'" by simp
              with h o3 show ?thesis by blast
            qed
          qed
          with o1 o2 f show ?thesis by auto
        qed
      qed
      with Pair show ?thesis by simp
    qed
  qed
qed

lemma newService_invariant: "cacheInvariant penv newService"
  by (simp add: cacheInvariant_def newService_def)

lemma runCalls_invariant:
  "cacheInvariant penv s \<Longrightarrow> cacheInvariant penv (runCalls penv k s calls)"
  by (induction calls arbitrary: s) (auto simp: getStorageProvider_invariant)

lemma runCalls_keeps:
  "providerCache s key = Some a \<Longrightarrow> providerCache (runCalls penv k s calls) key = Some a"
  by (induction calls arbitrary: s) (auto simp: getStorageProvider_keeps)


lemma runCalls_counts:
  assumes "providerCache s (cacheKey p e) = Some a"
  shows "count_list (factoryCalls (runCalls penv k s calls)) (p, e)
           = count_list (factoryCalls s) (p, e)
         \<and> count_list (configLookups (runCalls penv k s calls)) (p, e)
           = count_list (configLookups s) (p, e)"
  using assms
proof (induction calls arbitrary: s)
  case Nil
  then show ?case by simp
next
  case (Cons c calls)
  obtain p' e' where c: "c = (p', e')" by (cases c)
  let ?s = "snd (getStorageProvider penv k s p' e')"
  have keep: "providerCache ?s (cacheKey p e) = Some a"
    using Cons.prems by (rule getStorageProvider_keeps)
  have step: "count_list (factoryCalls ?s) (p, e) = count_list (factoryCalls s) (p, e)
              \<and> count_list (configLookups ?s) (p, e) = count_list (configLookups s) (p, e)"
  proof (cases "providerCache s (cacheKey p' e')")
    case (Some b)
    then show ?thesis by (simp add: getStorageProvider_cached)
  next
    case None
    with Cons.prems have "(p', e') \<noteq> (p, e)" by auto
    then show ?thesis
      unfolding getStorageProvider_miss[OF None] by (auto split: sum.splits)
  qed
  from Cons.IH[OF keep] step c show ?case by simp
qed

text \<open>
  C1. Let the service have answered any sequence of \<open>getStorageProvider\<close> calls, and let a
  call for (platformId, environment) succeed with adapter \<open>a\<close>. Then \<open>a\<close> sits in the
  cache under \<open>"{platformId}-{environment}"\<close>; if the pair was not cached before, this
  call made exactly one configuration lookup and one factory call; after any further
  calls, a call for the same pair returns the same instance and leaves the service as it
  is, so that no lookup and no factory call is ever made for the pair again; and a
  successful call for another pair uses another cache key and returns another instance.
  The last part rests on the table of platforms: no platform id or environment
  name in it contains a hyphen, so no two listed pairs share a key.
\<close>

theorem one_adapter_per_pair:
  assumes "getStorageProvider penv k (runCalls penv k newService calls) p e = (Inr a, s1)"
  shows "providerCache s1 (cacheKey p e) = Some a
    \<and> (providerCache (runCalls penv k newService calls) (cacheKey p e) = None \<longrightarrow>
          configLookups s1 = configLookups (runCalls penv k newService calls) @ [(p, e)]
          \<and> factoryCalls s1 = factoryCalls (runCalls penv k newService calls) @ [(p, e)])
    \<and> (\<forall>later. getStorageProvider penv k (runCalls penv k s1 later) p e
                   = (Inr a, runCalls penv k s1 later))
    \<and> (\<forall>later. count_list (factoryCalls (runCalls penv k s1 later)) (p, e)
                   = count_list (factoryCalls s1) (p, e)
                 \<and> count_list (configLookups (runCalls penv k s1 later)) (p, e)
                   = count_list (configLookups s1) (p, e))
    \<and> (\<forall>later p' e' a' s'.
          (p', e') \<noteq> (p, e)
          \<and> getStorageProvider penv k (runCalls penv k s1 later) p' e' = (Inr a', s')
          \<longrightarrow> cacheKey p' e' \<noteq> cacheKey p e \<and> instanceId a' \<noteq> instanceId a)"
proof -
  let ?s = "runCalls penv k newService calls"
  note ok = getStorageProvider_success[OF assms]
  have stored: "providerCache s1 (cacheKey p e) = Some a" using ok by simp
  have inv0: "cacheInvariant penv ?s"
    using newService_invariant by (rule runCalls_invariant)
  have inv1: "cacheInvariant penv s1"
    using getStorageProvider_invariant[OF inv0, of k p e] assms by simp
  have again: "\<forall>later. getStorageProvider penv k (runCalls penv k s1 later) p e
                   = (Inr a, runCalls penv k s1 later)"
    using runCalls_keeps[OF stored] by (simp add: getStorageProvider_cached)
  have counts: "\<forall>later. count_list (factoryCalls (runCalls penv k s1 later)) (p, e)
                   = count_list (factoryCalls s1) (p, e)
                 \<and> count_list (configLookups (runCalls penv k s1 later)) (p, e)
                   = count_list (configLookups s1) (p, e)"
    using runCalls_counts[OF stored] by blast
  have apart: "\<forall>later p' e' a' s'.
          (p', e') \<noteq> (p, e)
          \<and> getStorageProvider penv k (runCalls penv k s1 later) p' e' = (Inr a', s')
          \<longrightarrow> cacheKey p' e' \<noteq> cacheKey p e \<and> instanceId a' \<noteq> instanceId a"
  proof (intro allI impI)
    fix later p' e' a' s'
    assume h: "(p', e') \<noteq> (p, e)
          \<and> getStorageProvider penv k (runCalls penv k s1 later) p' e' = (Inr a', s')"
    let ?s2 = "runCalls penv k s1 later"
    from h have call: "getStorageProvider penv k ?s2 p' e' = (Inr a', s')" by simp
    have inv2: "cacheInvariant penv ?s2" using inv1 by (rule runCalls_invariant)
    have inv': "cacheInvariant penv s'"
      using getStorageProvider_invariant[OF inv2, of k p' e'] call by simp
    have mine: "providerCache s' (cacheKey p e) = Some a"
      using getStorageProvider_keeps[OF runCalls_keeps[OF stored, of penv k later], of penv k p' e'] call
      by simp
    have theirs: "providerCache s' (cacheKey p' e') = Some a'"
      using getStorageProvider_success[OF call] by simp
    from inv' mine obtain p0 e0 where reg: "registered penv p0 e0"
      and key: "cacheKey p e = cacheKey p0 e0"
      unfolding cacheInvariant_def by blast
    have "p = p0 \<and> e = e0"
      using registered_plain[OF reg] key by (intro cacheKey_injective) auto
    with reg have plain: "CHR ''-'' \<notin> set p" "CHR ''-'' \<notin> set e"
      using registered_plain by auto
    have keys: "cacheKey p' e' \<noteq> cacheKey p e"
    proof
      assume "cacheKey p' e' = cacheKey p e"
      then have "p' = p \<and> e' = e" using plain by (intro cacheKey_injective) auto
      with h show False by simp
    qed
    have "instanceId a' \<noteq> instanceId a"
    proof
      assume "instanceId a' = instanceId a"
      with inv' mine theirs have "cacheKey p' e' = cacheKey p e"
        unfolding cacheInvariant_def by blast
      with keys show False by simp
    qed
    with keys show "cacheKey p' e' \<noteq> cacheKey p e \<and> instanceId a' \<noteq> instanceId a" by simp
  qed
  from stored ok again counts apart show ?thesis by blast
qed

theorem one_adapter_per_pair_witness:
  "fst (getStorageProvider demoEnv (fakeStore True False) newService ''onedigital'' ''uat'')
     = Inr (AzureStorageProvider 0
              (withPlatformName ''OneDigital'' (azureEnvironment demoEnv ''ONEDIGITAL_UAT''))
              ''account'' ''a2V5'')
   \<and> fst (getStorageProvider demoEnv (fakeStore True False)
            (runCalls demoEnv (fakeStore True False)
               (snd (getStorageProvider demoEnv (fakeStore True False) newService
                       ''onedigital'' ''uat''))
               [(''onedigital'', ''prod''), (''nobody'', ''uat'')])
            ''onedigital'' ''uat'')
     = Inr (AzureStorageProvider 0
              (withPlatformName ''OneDigital'' (azureEnvironment demoEnv ''ONEDIGITAL_UAT''))
              ''account'' ''a2V5'')
   \<and> factoryCalls (snd (getStorageProvider demoEnv (fakeStore True False) newService
                          ''onedigital'' ''uat''))
     = [(''onedigital'', ''uat'')]
   \<and> count_list (factoryCalls (runCalls demoEnv (fakeStore True False)
               (snd (getStorageProvider demoEnv (fakeStore True False) newService
                       ''onedigital'' ''uat''))
               [(''onedigital'', ''prod''), (''onedigital'', ''uat'')])) (''onedigital'', ''uat'')
     = 1
   \<and> fst (getStorageProvider demoEnv (fakeStore True False)
            (snd (getStorageProvider demoEnv (fakeStore True False) newService
                    ''onedigital'' ''uat''))
            ''onedigital'' ''prod'')
     = Inr (AWSS3StorageProvider 1
              (withPlatformName ''OneDigital''
                 (s3Environment demoEnv ''ONEDIGITAL_PROD'' ''ap-south-1''
                    (demoEnv ''ONEDIGITAL_PROD_BUCKET_NAME'')))
              ''ap-south-1'')
   \<and> cacheKey ''onedigital'' ''prod'' \<noteq> cacheKey ''onedigital'' ''uat''
   \<and> instanceId (AWSS3StorageProvider 1
              (withPlatformName ''OneDigital''
                 (s3Environment demoEnv ''ONEDIGITAL_PROD'' ''ap-south-1''
                    (demoEnv ''ONEDIGITAL_PROD_BUCKET_NAME'')))
              ''ap-south-1'')
       \<noteq> instanceId (AzureStorageProvider 0
              (withPlatformName ''OneDigital'' (azureEnvironment demoEnv ''ONEDIGITAL_UAT''))
              ''account'' ''a2V5'')"
proof -
  let ?k = "fakeStore True False"
  let ?a = "AzureStorageProvider 0
              (withPlatformName ''OneDigital'' (azureEnvironment demoEnv ''ONEDIGITAL_UAT''))
              ''account'' ''a2V5''"
  let ?s1 = "snd (getStorageProvider demoEnv ?k newService ''onedigital'' ''uat'')"
  have ev: "fst (getStorageProvider demoEnv ?k newService ''onedigital'' ''uat'') = Inr ?a"
    by (simp add: service_defs upload_defs)
  then have call: "getStorageProvider demoEnv ?k (runCalls demoEnv ?k newService [])
                     ''onedigital'' ''uat'' = (Inr ?a, ?s1)"
    by (simp add: prod_eq_iff)
  have fresh: "providerCache (runCalls demoEnv ?k newService []) (cacheKey ''onedigital'' ''uat'')
               = None"
    by (simp add: newService_def)
  note t = one_adapter_per_pair[OF call]
  from t fresh have f: "factoryCalls ?s1 = [(''onedigital'', ''uat'')]"
    by (simp add: newService_def)
  from t have again: "getStorageProvider demoEnv ?k
       (runCalls demoEnv ?k ?s1 [(''onedigital'', ''prod''), (''nobody'', ''uat'')])
       ''onedigital'' ''uat''
     = (Inr ?a, runCalls demoEnv ?k ?s1 [(''onedigital'', ''prod''), (''nobody'', ''uat'')])"
    by blast
  from t have "count_list (factoryCalls (runCalls demoEnv ?k ?s1
                  [(''onedigital'', ''prod''), (''onedigital'', ''uat'')])) (''onedigital'', ''uat'')
               = count_list (factoryCalls ?s1) (''onedigital'', ''uat'')"
    by blast
  with f have c: "count_list (factoryCalls (runCalls demoEnv ?k ?s1
                  [(''onedigital'', ''prod''), (''onedigital'', ''uat'')])) (''onedigital'', ''uat'')
               = 1"
    by simp
  let ?b = "AWSS3StorageProvider 1
              (withPlatformName ''OneDigital''
                 (s3Environment demoEnv ''ONEDIGITAL_PROD'' ''ap-south-1''
                    (demoEnv ''ONEDIGITAL_PROD_BUCKET_NAME'')))
              ''ap-south-1''"
  have ev2: "fst (getStorageProvider demoEnv ?k ?s1 ''onedigital'' ''prod'') = Inr ?b"
    by (simp add: service_defs upload_defs)
  then have call2: "getStorageProvider demoEnv ?k (runCalls demoEnv ?k ?s1 [])
                      ''onedigital'' ''prod''
                    = (Inr ?b, snd (getStorageProvider demoEnv ?k ?s1 ''onedigital'' ''prod''))"
    by (simp add: prod_eq_iff)
  have ne: "(''onedigital'', ''prod'') \<noteq> (''onedigital'', ''uat'')" by simp
  note others = t[THEN conjunct2, THEN conjunct2, THEN conjunct2, THEN conjunct2, rule_format]
  have apart: "cacheKey ''onedigital'' ''prod'' \<noteq> cacheKey ''onedigital'' ''uat''
               \<and> instanceId ?b \<noteq> instanceId ?a"
    by (rule others[where later = "[]" and p' = "''onedigital''" and e' = "''prod''",
          OF conjI[OF ne call2]])
  from ev again f c ev2 apart show ?thesis by simp
qed

end
